theory Spec2Isabelle
  imports Complex_Main "HOL-Library.AList" "HOL-Library.Multiset"
begin

section \<open>Python values, errors and the operations the module uses on them\<close>

text \<open>
  The module \<^verbatim>\<open>logs_types_api.py\<close> is duck-typed: the same list may hold objects of the
  Kubernetes client (\<^verbatim>\<open>V1Container\<close>, \<^verbatim>\<open>V1Volume\<close>), plain dicts, \<^verbatim>\<open>None\<close> and strings.
  Values are therefore modelled by one datatype. A dict is an association list in insertion
  order; an object of a client class is its class name and its attributes. A float is
  the number it denotes (or an infinity, or not-a-number).
\<close>

datatype pyfloat = Finite rat | PosInf | NegInf | NaN

datatype pyval =
    PNone
  | PBool bool
  | PInt int
  | PFloat pyfloat
  | PStr string
  | PList "pyval list"
  | PDict "(string \<times> pyval) list"
  | PObj string "(string \<times> pyval) list"

type_synonym pydict = "(string \<times> pyval) list"

text \<open>
  Every \<^verbatim>\<open>raise\<close> is a value: \<open>ApiSpecError\<close> with its message, and the three faults of
  the interpreter that the accesses of the module can run into.
\<close>

datatype error = ApiSpecError string | AttributeError | KeyError | TypeError

definition and_then :: "error + 'a \<Rightarrow> ('a \<Rightarrow> error + 'b) \<Rightarrow> error + 'b" where
  "and_then m f = (case m of Inl e \<Rightarrow> Inl e | Inr x \<Rightarrow> f x)"

text \<open>Truth value of a value, as \<^verbatim>\<open>if v\<close>, \<^verbatim>\<open>not v\<close> and \<^verbatim>\<open>v and ...\<close> test it.\<close>

fun truthy :: "pyval \<Rightarrow> bool" where
  "truthy PNone = False"
| "truthy (PBool b) = b"
| "truthy (PInt i) = (i \<noteq> 0)"
| "truthy (PFloat f) = (f \<noteq> Finite 0)"
| "truthy (PStr s) = (s \<noteq> [])"
| "truthy (PList xs) = (xs \<noteq> [])"
| "truthy (PDict kvs) = (kvs \<noteq> [])"
| "truthy (PObj c attrs) = True"

text \<open>\<^verbatim>\<open>isinstance(v, int) or isinstance(v, float)\<close>; a bool is an int in Python.\<close>

fun is_int_or_float :: "pyval \<Rightarrow> bool" where
  "is_int_or_float (PInt i) = True"
| "is_int_or_float (PBool b) = True"
| "is_int_or_float (PFloat f) = True"
| "is_int_or_float v = False"

text \<open>\<^verbatim>\<open>v < 0\<close> for a value that passed the test above.\<close>

fun less_than_zero :: "pyval \<Rightarrow> bool" where
  "less_than_zero (PInt i) = (i < 0)"
| "less_than_zero (PFloat (Finite r)) = (r < 0)"
| "less_than_zero (PFloat NegInf) = True"
| "less_than_zero v = False"

text \<open>Decimal digits of an integer, as an f-string prints it.\<close>

fun show_nat :: "nat \<Rightarrow> string" where
  "show_nat n =
     (if n < 10 then [''0123456789'' ! n]
      else show_nat (n div 10) @ [''0123456789'' ! (n mod 10)])"

declare show_nat.simps [simp del]

definition show_int :: "int \<Rightarrow> string" where
  "show_int i = (if i < 0 then CHR ''-'' # show_nat (nat (- i)) else show_nat (nat i))"

text \<open>
  \<^verbatim>\<open>f"{v}"\<close>: a string is printed as it is, an integer in decimal, \<^verbatim>\<open>None\<close> and the
  booleans by their names. The text Python prints for a float, a list, a dict or an
  object is not modelled: it is the parameter \<open>builtin_str\<close>.
\<close>

fun format_value :: "(pyval \<Rightarrow> string) \<Rightarrow> pyval \<Rightarrow> string" where
  "format_value builtin_str (PStr s) = s"
| "format_value builtin_str (PInt i) = show_int i"
| "format_value builtin_str (PBool b) = (if b then ''True'' else ''False'')"
| "format_value builtin_str PNone = ''None''"
| "format_value builtin_str v = builtin_str v"

text \<open>\<^verbatim>\<open>f"{self._prefix}"\<close> for the optional prefix.\<close>

fun format_prefix :: "string option \<Rightarrow> string" where
  "format_prefix None = ''None''"
| "format_prefix (Some p) = p"

section \<open>The typed-field extractors of \<^verbatim>\<open>api_utils\<close>\<close>

definition dget_bool :: "pydict \<Rightarrow> string \<Rightarrow> string \<Rightarrow> error + bool" where
  \<comment> \<open>Modelled from the spec: \<^verbatim>\<open>api_utils.dget_bool\<close> is not among the sources. The spec
      gives the contract: it takes (document, field name, error-path prefix) and fails
      with a specification error on type mismatch, the message embedding the field's
      dotted path. The message here is that path alone.\<close>
  "dget_bool d key what =
     (case map_of d key of
        Some (PBool b) \<Rightarrow> Inr b
      | _ \<Rightarrow> Inl (ApiSpecError (what @ ''.'' @ key)))"

definition dget_int :: "pydict \<Rightarrow> string \<Rightarrow> string \<Rightarrow> error + int" where
  \<comment> \<open>Modelled from the spec: \<^verbatim>\<open>api_utils.dget_int\<close> is not among the sources; same
      contract as \<open>dget_bool\<close>, for integers.\<close>
  "dget_int d key what =
     (case map_of d key of
        Some (PInt i) \<Rightarrow> Inr i
      | _ \<Rightarrow> Inl (ApiSpecError (what @ ''.'' @ key)))"

text \<open>\<^verbatim>\<open>field in spec\<close> for a dict.\<close>

definition has_key :: "string \<Rightarrow> pydict \<Rightarrow> bool" where
  "has_key k d = (map_of d k \<noteq> None)"

section \<open>The log specifications\<close>

text \<open>
  \<^verbatim>\<open>ConfigMapMountBase.__init__\<close> stores the mount descriptor; the three concrete classes
  extend it. Python's \<^verbatim>\<open>_enabled\<close>, \<^verbatim>\<open>collect\<close>, \<^verbatim>\<open>fileName\<close> and \<^verbatim>\<open>_prefix\<close> are fields of
  each class separately, so each record names its own.
\<close>

record ConfigMapMountBase =
  volume_mount_name :: string
  config_file_name :: string
  config_file_mount_path :: string

record GeneralLogSpec = ConfigMapMountBase +
  general_enabled :: "bool option"
  general_collect :: bool
  general_fileName :: string
  general_prefix :: "string option"

record ErrorLogSpec = ConfigMapMountBase +
  error_collect :: bool
  error_verbosity :: int
  error_log_name :: string
  error_prefix :: "string option"

record SlowQueryLogSpec = ConfigMapMountBase +
  slow_enabled :: "bool option"
  slow_longQueryTime :: pyval
  slow_collect :: bool
  slow_fileName :: string
  slow_prefix :: "string option"

text \<open>The constructors.\<close>

definition GeneralLogSpec_init :: GeneralLogSpec where
  "GeneralLogSpec_init =
     \<lparr>volume_mount_name = ''general-log-config'',
      config_file_name = ''general-log.cnf'',
      config_file_mount_path = ''/etc/my.cnf.d'',
      general_enabled = None,
      general_collect = False,
      general_fileName = ''general_query.log'',
      general_prefix = None\<rparr>"

definition ErrorLogSpec_init :: ErrorLogSpec where
  "ErrorLogSpec_init =
     \<lparr>volume_mount_name = ''error-log-config'',
      config_file_name = ''error-log.cnf'',
      config_file_mount_path = ''/etc/my.cnf.d'',
      error_collect = False,
      error_verbosity = 3,
      error_log_name = ''error.log'',
      error_prefix = None\<rparr>"

definition SlowQueryLogSpec_init :: SlowQueryLogSpec where
  "SlowQueryLogSpec_init =
     \<lparr>volume_mount_name = ''slow-query-log-config'',
      config_file_name = ''slow-query-log.cnf'',
      config_file_mount_path = ''/etc/my.cnf.d'',
      slow_enabled = None,
      slow_longQueryTime = PNone,
      slow_collect = False,
      slow_fileName = ''slow_query.log'',
      slow_prefix = None\<rparr>"

text \<open>
  Truth value of the optional boolean \<^verbatim>\<open>self.enabled\<close> and of the optional string
  \<^verbatim>\<open>self._prefix\<close>: \<^verbatim>\<open>None\<close> and the empty string are false.
\<close>

fun enabled_true :: "bool option \<Rightarrow> bool" where
  "enabled_true None = False"
| "enabled_true (Some b) = b"

fun prefix_true :: "string option \<Rightarrow> bool" where
  "prefix_true None = False"
| "prefix_true (Some p) = (p \<noteq> [])"

subsection \<open>\<^verbatim>\<open>GeneralLogSpec\<close>\<close>

text \<open>
  \<^verbatim>\<open>parse(spec, prefix, logger)\<close>: the fragment is \<^verbatim>\<open>None\<close> or a dict; \<^verbatim>\<open>not spec\<close> holds for
  both \<^verbatim>\<open>None\<close> and the empty dict.
\<close>

definition GeneralLogSpec_parse ::
    "GeneralLogSpec \<Rightarrow> pydict option \<Rightarrow> string \<Rightarrow> error + GeneralLogSpec" where
  "GeneralLogSpec_parse self spec prefix =
     (case spec of
        None \<Rightarrow> Inr self
      | Some d \<Rightarrow>
          if d = [] then Inr self
          else
            let s0 = self\<lparr>general_prefix := Some prefix\<rparr> in
            and_then
              (if has_key ''enabled'' d
               then and_then (dget_bool d ''enabled'' prefix)
                      (\<lambda>b. Inr (s0\<lparr>general_enabled := Some b\<rparr>))
               else Inr s0)
              (\<lambda>s1. if has_key ''collect'' d
                    then and_then (dget_bool d ''collect'' prefix)
                           (\<lambda>b. Inr (s1\<lparr>general_collect := b\<rparr>))
                    else Inr s1))"

definition GeneralLogSpec_validate :: "GeneralLogSpec \<Rightarrow> error + unit" where
  "GeneralLogSpec_validate self =
     (if general_collect self \<and> \<not> enabled_true (general_enabled self)
      then Inl (ApiSpecError
             (format_prefix (general_prefix self) @ ''.collect is enabled while ''
              @ format_prefix (general_prefix self) @ ''.enabled is not''))
      else Inr ())"

definition GeneralLogSpec_get_cm_data :: "GeneralLogSpec \<Rightarrow> (string \<times> string) list" where
  "GeneralLogSpec_get_cm_data self =
     (let mycnf = ''# Generated by MySQL Operator for Kubernetes\<newline>[mysqld]\<newline>general_log=''
                  @ (if enabled_true (general_enabled self) then ''1'' else ''0'');
          mycnf' = (if enabled_true (general_enabled self)
                    then mycnf @ ''\<newline>general_log_file='' @ general_fileName self
                    else mycnf)
      in [(config_file_name self, mycnf')])"

subsection \<open>\<^verbatim>\<open>ErrorLogSpec\<close>\<close>

definition ErrorLogSpec_parse ::
    "ErrorLogSpec \<Rightarrow> pydict option \<Rightarrow> string \<Rightarrow> error + ErrorLogSpec" where
  "ErrorLogSpec_parse self spec prefix =
     (case spec of
        None \<Rightarrow> Inr self
      | Some d \<Rightarrow>
          if d = [] then Inr self
          else
            let s0 = self\<lparr>error_prefix := Some prefix\<rparr> in
            and_then
              (if has_key ''verbosity'' d
               then and_then (dget_int d ''verbosity'' prefix)
                      (\<lambda>i. Inr (s0\<lparr>error_verbosity := i\<rparr>))
               else Inr s0)
              (\<lambda>s1. if has_key ''collect'' d
                    then and_then (dget_bool d ''collect'' prefix)
                           (\<lambda>b. Inr (s1\<lparr>error_collect := b\<rparr>))
                    else Inr s1))"

definition ErrorLogSpec_validate :: "ErrorLogSpec \<Rightarrow> error + unit" where
  "ErrorLogSpec_validate self =
     (if error_verbosity self < 1 \<or> error_verbosity self > 3
      then Inl (ApiSpecError
             (format_prefix (error_prefix self) @ ''.verbosity must be between 1 and 3''))
      else Inr ())"

definition ErrorLogSpec_get_cm_data :: "ErrorLogSpec \<Rightarrow> (string \<times> string) list" where
  "ErrorLogSpec_get_cm_data self =
     (let mycnf = ''# Generated by MySQL Operator for Kubernetes\<newline>[mysqld]\<newline>log_error_verbosity=''
                  @ show_int (error_verbosity self);
          mycnf' = (if error_collect self
                    then mycnf @ ''\<newline>log_error='' @ [CHR 0x27] @ error_log_name self @ [CHR 0x27]
                         @ ''\<newline>log_error_services='' @ [CHR 0x27] @ ''log_sink_json'' @ [CHR 0x27]
                    else mycnf)
      in [(config_file_name self, mycnf')])"

subsection \<open>\<^verbatim>\<open>SlowQueryLogSpec\<close>\<close>

text \<open>
  \<^verbatim>\<open>longQueryTime\<close> is read with \<^verbatim>\<open>spec[field]\<close>, not through an extractor: whatever value
  the document holds is stored.
\<close>

definition SlowQueryLogSpec_parse ::
    "SlowQueryLogSpec \<Rightarrow> pydict option \<Rightarrow> string \<Rightarrow> error + SlowQueryLogSpec" where
  "SlowQueryLogSpec_parse self spec prefix =
     (case spec of
        None \<Rightarrow> Inr self
      | Some d \<Rightarrow>
          if d = [] then Inr self
          else
            let s0 = self\<lparr>slow_prefix := Some prefix\<rparr> in
            and_then
              (if has_key ''enabled'' d
               then and_then (dget_bool d ''enabled'' prefix)
                      (\<lambda>b. Inr (s0\<lparr>slow_enabled := Some b\<rparr>))
               else Inr s0)
              (\<lambda>s1. let s2 = (case map_of d ''longQueryTime'' of
                                 None \<Rightarrow> s1
                               | Some v \<Rightarrow> s1\<lparr>slow_longQueryTime := v\<rparr>)
                    in if has_key ''collect'' d
                       then and_then (dget_bool d ''collect'' prefix)
                              (\<lambda>b. Inr (s2\<lparr>slow_collect := b\<rparr>))
                       else Inr s2))"

definition SlowQueryLogSpec_validate :: "SlowQueryLogSpec \<Rightarrow> error + unit" where
  "SlowQueryLogSpec_validate self =
     (if is_int_or_float (slow_longQueryTime self) \<and> less_than_zero (slow_longQueryTime self)
      then Inl (ApiSpecError
             (format_prefix (slow_prefix self) @ ''.longQueryTime must not be negative''))
      else if prefix_true (slow_prefix self) \<and> slow_collect self
              \<and> \<not> enabled_true (slow_enabled self)
      then Inl (ApiSpecError
             (format_prefix (slow_prefix self) @ ''.collect is enabled while ''
              @ format_prefix (slow_prefix self) @ ''.enabled is not''))
      else Inr ())"

definition SlowQueryLogSpec_get_cm_data ::
    "(pyval \<Rightarrow> string) \<Rightarrow> SlowQueryLogSpec \<Rightarrow> (string \<times> string) list" where
  "SlowQueryLogSpec_get_cm_data builtin_str self =
     (let mycnf = ''# Generated by MySQL Operator for Kubernetes\<newline>[mysqld]\<newline>slow_query_log=''
                  @ (if enabled_true (slow_enabled self) then ''1'' else ''0'');
          mycnf' = (if enabled_true (slow_enabled self)
                    then (let m1 = mycnf @ ''\<newline>slow_query_log_file='' @ [CHR 0x27]
                                   @ slow_fileName self @ [CHR 0x27]
                                   @ ''\<newline>log_slow_admin_statements=1''
                          in if truthy (slow_longQueryTime self)
                             then m1 @ ''\<newline>long_query_time=''
                                  @ format_value builtin_str (slow_longQueryTime self)
                             else m1)
                    else mycnf)
      in [(config_file_name self, mycnf')])"

section \<open>The workload template\<close>

text \<open>
  The template \<^verbatim>\<open>sts\<close> is either a dict (the generic tree, before creation) or an object
  of class \<^verbatim>\<open>V1StatefulSet\<close> (the typed form, patched in place). Mutation in place is
  modelled by returning the updated value. An access that fails raises, so it returns
  an error.
\<close>

fun getattr :: "pyval \<Rightarrow> string \<Rightarrow> error + pyval" where
  "getattr (PObj c attrs) a =
     (case map_of attrs a of Some v \<Rightarrow> Inr v | None \<Rightarrow> Inl AttributeError)"
| "getattr v a = Inl AttributeError"

fun setattr :: "pyval \<Rightarrow> string \<Rightarrow> pyval \<Rightarrow> error + pyval" where
  "setattr (PObj c attrs) a v = Inr (PObj c (AList.update a v attrs))"
| "setattr obj a v = Inl AttributeError"

fun getitem :: "pyval \<Rightarrow> string \<Rightarrow> error + pyval" where
  "getitem (PDict kvs) k =
     (case map_of kvs k of Some v \<Rightarrow> Inr v | None \<Rightarrow> Inl KeyError)"
| "getitem v k = Inl TypeError"

fun setitem :: "pyval \<Rightarrow> string \<Rightarrow> pyval \<Rightarrow> error + pyval" where
  "setitem (PDict kvs) k v = Inr (PDict (AList.update k v kvs))"
| "setitem d k v = Inl TypeError"

text \<open>
  \<open>in_attr a f obj\<close> runs \<open>f\<close> on the object that the attribute \<open>a\<close> of \<open>obj\<close> holds and
  keeps what \<open>f\<close> made of it: the statements of the module that mutate
  \<^verbatim>\<open>sts.spec.template.spec\<close> in place. \<open>in_item\<close> is the same for \<^verbatim>\<open>sts["spec"]["template"]["spec"]\<close>.
\<close>

definition in_attr :: "string \<Rightarrow> (pyval \<Rightarrow> error + pyval) \<Rightarrow> pyval \<Rightarrow> error + pyval" where
  "in_attr a f obj =
     and_then (getattr obj a) (\<lambda>v. and_then (f v) (\<lambda>v'. setattr obj a v'))"

definition in_item :: "string \<Rightarrow> (pyval \<Rightarrow> error + pyval) \<Rightarrow> pyval \<Rightarrow> error + pyval" where
  "in_item k f d =
     and_then (getitem d k) (\<lambda>v. and_then (f v) (\<lambda>v'. setitem d k v'))"

text \<open>
  \<^verbatim>\<open>for x in v\<close>: the elements of a list, the keys of a dict, the characters of a string;
  nothing else that the model holds can be iterated.
\<close>

fun py_iter :: "pyval \<Rightarrow> error + pyval list" where
  "py_iter (PList xs) = Inr xs"
| "py_iter (PDict kvs) = Inr (map (\<lambda>kv. PStr (fst kv)) kvs)"
| "py_iter (PStr s) = Inr (map (\<lambda>c. PStr [c]) s)"
| "py_iter v = Inl TypeError"

text \<open>
  \<^verbatim>\<open>x += y\<close> where \<open>y\<close> is a list or a dict, as in every use of the module: a list \<open>x\<close> is
  extended by the elements that iterating \<open>y\<close> yields (for a dict: its keys), every other
  \<open>x\<close> raises \<^verbatim>\<open>TypeError\<close>.
\<close>

fun py_iadd :: "pyval \<Rightarrow> pyval \<Rightarrow> error + pyval" where
  "py_iadd (PList xs) y = and_then (py_iter y) (\<lambda>ys. Inr (PList (xs @ ys)))"
| "py_iadd x y = Inl TypeError"

text \<open>\<^verbatim>\<open>get_object_name\<close>: \<^verbatim>\<open>obj["name"] if isinstance(obj, dict) else obj.name\<close>.\<close>

definition get_object_name :: "pyval \<Rightarrow> error + pyval" where
  "get_object_name obj =
     (case obj of
        PDict kvs \<Rightarrow> getitem obj ''name''
      | _ \<Rightarrow> getattr obj ''name'')"

text \<open>
  The comprehension \<^verbatim>\<open>[v for v in vs if v and get_object_name(v) != name]\<close>, element by
  element: a false element is dropped without asking for its name; the first element
  whose name cannot be read raises.
\<close>

fun keep_others :: "string \<Rightarrow> pyval list \<Rightarrow> error + pyval list" where
  "keep_others n [] = Inr []"
| "keep_others n (v # vs) =
     (if \<not> truthy v then keep_others n vs
      else and_then (get_object_name v)
             (\<lambda>nm. and_then (keep_others n vs)
                      (\<lambda>ks. Inr (if nm \<noteq> PStr n then v # ks else ks))))"

subsection \<open>The two patches\<close>

definition volume_entry :: "'a ConfigMapMountBase_scheme \<Rightarrow> string \<Rightarrow> pyval" where
  "volume_entry self cm_name =
     PDict [(''name'', PStr (volume_mount_name self)),
            (''configMap'',
               PDict [(''name'', PStr cm_name),
                      (''defaultMode'', PInt 420),
                      (''items'',
                         PList [PDict [(''key'', PStr (config_file_name self)),
                                       (''path'', PStr (config_file_name self))]])])]"

definition volumes_patch :: "'a ConfigMapMountBase_scheme \<Rightarrow> string \<Rightarrow> pyval" where
  "volumes_patch self cm_name = PDict [(''volumes'', PList [volume_entry self cm_name])]"

definition mount_entry :: "'a ConfigMapMountBase_scheme \<Rightarrow> pyval" where
  "mount_entry self =
     PDict [(''name'', PStr (volume_mount_name self)),
            (''mountPath'',
               PStr (config_file_mount_path self @ ''/'' @ config_file_name self)),
            (''subPath'', PStr (config_file_name self))]"

definition containers_patch :: "'a ConfigMapMountBase_scheme \<Rightarrow> string \<Rightarrow> pyval" where
  "containers_patch self container_name =
     PDict [(''containers'',
               PList [PDict [(''name'', PStr container_name),
                             (''volumeMounts'', PList [mount_entry self])]])]"

subsection \<open>\<^verbatim>\<open>_add_volumes_to_sts_spec\<close>\<close>

text \<open>
  The typed branch, on the object \<^verbatim>\<open>sts.spec.template.spec\<close>: the volumes are filtered and
  stored, then the stored list is extended by \<^verbatim>\<open>patch["volumes"]\<close>.
\<close>

definition typed_add_volumes :: "'a ConfigMapMountBase_scheme \<Rightarrow> string \<Rightarrow> pyval \<Rightarrow> error + pyval" where
  "typed_add_volumes self cm_name pod =
     and_then (getattr pod ''volumes'') (\<lambda>vols.
     and_then (py_iter vols) (\<lambda>vs.
     and_then (keep_others (volume_mount_name self) vs) (\<lambda>ks.
     and_then (setattr pod ''volumes'' (PList ks)) (\<lambda>pod1.
     and_then (getattr pod1 ''volumes'') (\<lambda>vols1.
     and_then (py_iadd vols1 (PList [volume_entry self cm_name])) (\<lambda>vols2.
     setattr pod1 ''volumes'' vols2))))))"

text \<open>
  \<^verbatim>\<open>utils.merge_patch_object\<close>, the structural merge of the generic-tree form, is not part
  of this module: it is the parameter \<open>merge_patch_object\<close>, which returns what the merge
  makes of its first argument. A template that is neither a dict nor a \<^verbatim>\<open>V1StatefulSet\<close>
  takes neither branch and stays as it is.
\<close>

definition add_volumes_to_sts_spec ::
    "(pyval \<Rightarrow> pyval \<Rightarrow> error + pyval) \<Rightarrow> 'a ConfigMapMountBase_scheme \<Rightarrow> pyval \<Rightarrow> string
      \<Rightarrow> error + pyval" where
  "add_volumes_to_sts_spec merge_patch_object self sts cm_name =
     (case sts of
        PDict kvs \<Rightarrow>
          in_item ''spec'' (in_item ''template'' (in_item ''spec''
            (\<lambda>base. merge_patch_object base (volumes_patch self cm_name)))) sts
      | PObj c attrs \<Rightarrow>
          if c = ''V1StatefulSet''
          then in_attr ''spec'' (in_attr ''template'' (in_attr ''spec''
                 (typed_add_volumes self cm_name))) sts
          else Inr sts
      | _ \<Rightarrow> Inr sts)"

subsection \<open>\<^verbatim>\<open>_add_containers_to_sts_spec\<close>\<close>

text \<open>
  The body of the loop for the container that matches: its mounts are filtered and
  stored, then the stored list is extended by \<^verbatim>\<open>patch["containers"][0]["volumeMounts"]\<close>.
\<close>

definition patch_container :: "'a ConfigMapMountBase_scheme \<Rightarrow> pyval \<Rightarrow> error + pyval" where
  "patch_container self container =
     and_then (getattr container ''volume_mounts'') (\<lambda>vms.
     and_then (py_iter vms) (\<lambda>ms.
     and_then (keep_others (volume_mount_name self) ms) (\<lambda>ks.
     and_then (setattr container ''volume_mounts'' (PList ks)) (\<lambda>c1.
     and_then (getattr c1 ''volume_mounts'') (\<lambda>vms1.
     and_then (py_iadd vms1 (PList [mount_entry self])) (\<lambda>vms2.
     setattr c1 ''volume_mounts'' vms2))))))"

text \<open>
  The loop over the containers: the first container whose name is \<^verbatim>\<open>container_name\<close> is
  patched and the loop breaks. The result is the list after the loop and \<^verbatim>\<open>found\<close>.
\<close>

fun patch_first_container ::
    "'a ConfigMapMountBase_scheme \<Rightarrow> string \<Rightarrow> pyval list \<Rightarrow> error + (pyval list \<times> bool)" where
  "patch_first_container self container_name [] = Inr ([], False)"
| "patch_first_container self container_name (c # cs) =
     and_then (get_object_name c) (\<lambda>nm.
       if nm = PStr container_name
       then and_then (patch_container self c) (\<lambda>c'. Inr (c' # cs, True))
       else and_then (patch_first_container self container_name cs)
              (\<lambda>r. Inr (c # fst r, snd r)))"

text \<open>
  The typed branch, on the object \<^verbatim>\<open>sts.spec.template.spec\<close>. When no container matched,
  line 104 runs \<^verbatim>\<open>containers += patch\<close> with the whole patch, a dict. (A container can
  only match when \<^verbatim>\<open>containers\<close> is a list: the elements that iterating a dict or a string
  yields are strings, whose name cannot be read.)
\<close>

definition typed_add_containers ::
    "'a ConfigMapMountBase_scheme \<Rightarrow> string \<Rightarrow> pyval \<Rightarrow> error + pyval" where
  "typed_add_containers self container_name pod =
     and_then (getattr pod ''containers'') (\<lambda>conts.
     and_then (py_iter conts) (\<lambda>cs.
     and_then (patch_first_container self container_name cs) (\<lambda>r.
       if snd r then setattr pod ''containers'' (PList (fst r))
       else and_then (py_iadd conts (containers_patch self container_name))
              (\<lambda>conts'. setattr pod ''containers'' conts'))))"

definition add_containers_to_sts_spec ::
    "(pyval \<Rightarrow> pyval \<Rightarrow> error + pyval) \<Rightarrow> 'a ConfigMapMountBase_scheme \<Rightarrow> pyval \<Rightarrow> string
      \<Rightarrow> error + pyval" where
  "add_containers_to_sts_spec merge_patch_object self sts container_name =
     (case sts of
        PDict kvs \<Rightarrow>
          in_item ''spec'' (in_item ''template'' (in_item ''spec''
            (\<lambda>base. merge_patch_object base (containers_patch self container_name)))) sts
      | PObj c attrs \<Rightarrow>
          if c = ''V1StatefulSet''
          then in_attr ''spec'' (in_attr ''template'' (in_attr ''spec''
                 (typed_add_containers self container_name))) sts
          else Inr sts
      | _ \<Rightarrow> Inr sts)"

subsection \<open>\<^verbatim>\<open>add_to_sts_spec\<close>\<close>

definition add_to_sts_spec ::
    "(pyval \<Rightarrow> pyval \<Rightarrow> error + pyval) \<Rightarrow> 'a ConfigMapMountBase_scheme \<Rightarrow> pyval \<Rightarrow> string
      \<Rightarrow> string \<Rightarrow> error + pyval" where
  "add_to_sts_spec merge_patch_object self sts container_name cm_name =
     and_then (add_containers_to_sts_spec merge_patch_object self sts container_name)
       (\<lambda>sts'. add_volumes_to_sts_spec merge_patch_object self sts' cm_name)"

subsection \<open>Typed templates, for stating what the calls do\<close>

text \<open>
  A \<^verbatim>\<open>V1StatefulSet\<close> whose pod specification holds the given containers and volumes, and
  a \<^verbatim>\<open>V1Container\<close> with the given name and mounts.
\<close>

definition V1StatefulSet :: "pyval \<Rightarrow> pyval \<Rightarrow> pyval" where
  "V1StatefulSet conts vols =
     PObj ''V1StatefulSet''
       [(''spec'', PObj ''V1StatefulSetSpec''
          [(''template'', PObj ''V1PodTemplateSpec''
             [(''spec'', PObj ''V1PodSpec''
                [(''containers'', conts), (''volumes'', vols)])])])]"

definition V1Container :: "string \<Rightarrow> pyval \<Rightarrow> pyval" where
  "V1Container n mounts = PObj ''V1Container'' [(''name'', PStr n), (''volume_mounts'', mounts)]"

subsection \<open>Two templates that differ in the order of the appended entries\<close>

text \<open>
  \<open>swap_last_two\<close> exchanges the last two elements of a list. \<open>swap_appended\<close> does so in
  the volumes of a typed template and in the mounts of its first container of the given
  name, and changes nothing else.
\<close>

fun swap_last_two :: "'a list \<Rightarrow> 'a list" where
  "swap_last_two [a, b] = [b, a]"
| "swap_last_two (x # xs) = x # swap_last_two xs"
| "swap_last_two [] = []"

definition upd_attr :: "string \<Rightarrow> (pyval \<Rightarrow> pyval) \<Rightarrow> pyval \<Rightarrow> pyval" where
  "upd_attr a f obj =
     (case obj of
        PObj c attrs \<Rightarrow>
          (case map_of attrs a of
             Some v \<Rightarrow> PObj c (AList.update a (f v) attrs)
           | None \<Rightarrow> obj)
      | _ \<Rightarrow> obj)"

definition upd_list :: "(pyval list \<Rightarrow> pyval list) \<Rightarrow> pyval \<Rightarrow> pyval" where
  "upd_list f v = (case v of PList xs \<Rightarrow> PList (f xs) | _ \<Rightarrow> v)"

fun upd_first_named :: "string \<Rightarrow> (pyval \<Rightarrow> pyval) \<Rightarrow> pyval list \<Rightarrow> pyval list" where
  "upd_first_named n f [] = []"
| "upd_first_named n f (c # cs) =
     (if get_object_name c = Inr (PStr n) then f c # cs else c # upd_first_named n f cs)"

definition swap_in_pod :: "string \<Rightarrow> pyval \<Rightarrow> pyval" where
  "swap_in_pod container_name pod =
     upd_attr ''volumes'' (upd_list swap_last_two)
       (upd_attr ''containers''
          (upd_list (upd_first_named container_name
             (upd_attr ''volume_mounts'' (upd_list swap_last_two)))) pod)"

definition swap_appended :: "string \<Rightarrow> pyval \<Rightarrow> pyval" where
  "swap_appended container_name sts =
     upd_attr ''spec'' (upd_attr ''template'' (upd_attr ''spec'' (swap_in_pod container_name))) sts"

subsection \<open>Notions for the proofs about the typed form\<close>

text \<open>
  \<open>keeps n v\<close>: the comprehension over a list for the name \<open>n\<close> keeps \<open>v\<close>.
  \<open>readable vs\<close>: the comprehension over \<open>vs\<close> does not raise, because every true element
  has a name. \<open>skips n cs\<close>: the loop over the containers \<open>cs\<close> reads each name and finds
  none equal to \<open>n\<close>.
\<close>

definition keeps :: "string \<Rightarrow> pyval \<Rightarrow> bool" where
  "keeps n v = (truthy v \<and> get_object_name v \<noteq> Inr (PStr n))"

definition readable :: "pyval list \<Rightarrow> bool" where
  "readable xs = list_all (\<lambda>v. \<not> truthy v \<or> \<not> isl (get_object_name v)) xs"

definition skips :: "string \<Rightarrow> pyval list \<Rightarrow> bool" where
  "skips n cs = list_all (\<lambda>c. \<not> isl (get_object_name c) \<and> get_object_name c \<noteq> Inr (PStr n)) cs"

text \<open>
  \<open>pod_ready\<close>: a pod specification (its attributes \<open>al\<close>) whose containers are
  \<open>pre @ PObj cc ca # post\<close>, the object \<open>PObj cc ca\<close> being the first container of the name
  \<open>cn\<close>, with mounts \<open>ms\<close> and volumes \<open>vs\<close> that can be filtered. \<open>pod_after\<close>: that pod
  specification with its mounts and volumes replaced.
\<close>

definition pod_ready ::
    "string \<Rightarrow> pydict \<Rightarrow> pyval list \<Rightarrow> string \<Rightarrow> pydict \<Rightarrow> pyval list \<Rightarrow> pyval list \<Rightarrow> pyval list
      \<Rightarrow> bool" where
  "pod_ready cn al pre cc ca post ms vs =
     (skips cn pre \<and> map_of ca ''name'' = Some (PStr cn) \<and> readable ms \<and> readable vs
      \<and> map_of al ''containers'' = Some (PList (pre @ PObj cc ca # post))
      \<and> (\<exists>vms. map_of ca ''volume_mounts'' = Some vms \<and> py_iter vms = Inr ms)
      \<and> (\<exists>vols. map_of al ''volumes'' = Some vols \<and> py_iter vols = Inr vs))"

definition pod_after ::
    "string \<Rightarrow> pydict \<Rightarrow> pyval list \<Rightarrow> string \<Rightarrow> pydict \<Rightarrow> pyval list \<Rightarrow> pyval list \<Rightarrow> pyval list
      \<Rightarrow> pyval" where
  "pod_after pc al pre cc ca post ms vs =
     PObj pc (AList.update ''volumes'' (PList vs)
       (AList.update ''containers''
          (PList (pre @ PObj cc (AList.update ''volume_mounts'' (PList ms) ca) # post)) al))"

section \<open>Sequencing calls that may raise\<close>

lemma and_then_Inl [simp]: "and_then (Inl e) f = Inl e"
  by (simp add: and_then_def)

lemma and_then_Inr [simp]: "and_then (Inr x) f = f x"
  by (simp add: and_then_def)

lemma and_then_eq_Inr: "and_then m f = Inr y \<longleftrightarrow> (\<exists>x. m = Inr x \<and> f x = Inr y)"
  by (cases m) simp_all

lemma and_then_assoc: "and_then (and_then m f) g = and_then m (\<lambda>x. and_then (f x) g)"
  by (cases m) simp_all

lemma and_then_cong_Inr: "(\<And>x. m = Inr x \<Longrightarrow> f x = g x) \<Longrightarrow> and_then m f = and_then m g"
  by (cases m) simp_all

section \<open>Validation of the error log\<close>

text \<open>
  C7. \<^verbatim>\<open>ErrorLogSpec.validate\<close> raises the specification error exactly when the stored
  verbosity is outside 1..3: it raises for 0 and for 4, and returns normally for 1, 2
  and 3, whatever the other fields hold.
\<close>

theorem ErrorLogSpec_validate_range:
  "(ErrorLogSpec_validate self =
      Inl (ApiSpecError (format_prefix (error_prefix self) @ ''.verbosity must be between 1 and 3'')))
     = (error_verbosity self < 1 \<or> 3 < error_verbosity self)
   \<and> (ErrorLogSpec_validate self = Inr ())
     = (1 \<le> error_verbosity self \<and> error_verbosity self \<le> 3)
   \<and> isl (ErrorLogSpec_validate (self\<lparr>error_verbosity := 0\<rparr>))
   \<and> isl (ErrorLogSpec_validate (self\<lparr>error_verbosity := 4\<rparr>))
   \<and> ErrorLogSpec_validate (self\<lparr>error_verbosity := 1\<rparr>) = Inr ()
   \<and> ErrorLogSpec_validate (self\<lparr>error_verbosity := 2\<rparr>) = Inr ()
   \<and> ErrorLogSpec_validate (self\<lparr>error_verbosity := 3\<rparr>) = Inr ()"
  by (auto simp add: ErrorLogSpec_validate_def)

section \<open>Parsing an unspecified fragment\<close>

text \<open>
  C8. For each of the three kinds, \<^verbatim>\<open>parse\<close> with an absent fragment (\<^verbatim>\<open>None\<close>) or an
  empty one returns normally and changes no field of the instance; on a freshly
  constructed instance every field is therefore still at its constructor default:
  enabled unset, collect false, verbosity 3, longQueryTime unset, the file names as
  constructed and the prefix unset.
\<close>

theorem parse_unspecified_fragment:
  "GeneralLogSpec_parse g None p = Inr g \<and> GeneralLogSpec_parse g (Some []) p = Inr g
   \<and> ErrorLogSpec_parse e None p = Inr e \<and> ErrorLogSpec_parse e (Some []) p = Inr e
   \<and> SlowQueryLogSpec_parse s None p = Inr s \<and> SlowQueryLogSpec_parse s (Some []) p = Inr s
   \<and> GeneralLogSpec_parse GeneralLogSpec_init None p = Inr GeneralLogSpec_init
   \<and> general_enabled GeneralLogSpec_init = None
   \<and> general_collect GeneralLogSpec_init = False
   \<and> general_fileName GeneralLogSpec_init = ''general_query.log''
   \<and> general_prefix GeneralLogSpec_init = None
   \<and> ErrorLogSpec_parse ErrorLogSpec_init None p = Inr ErrorLogSpec_init
   \<and> error_collect ErrorLogSpec_init = False
   \<and> error_verbosity ErrorLogSpec_init = 3
   \<and> error_log_name ErrorLogSpec_init = ''error.log''
   \<and> error_prefix ErrorLogSpec_init = None
   \<and> SlowQueryLogSpec_parse SlowQueryLogSpec_init None p = Inr SlowQueryLogSpec_init
   \<and> slow_enabled SlowQueryLogSpec_init = None
   \<and> slow_longQueryTime SlowQueryLogSpec_init = PNone
   \<and> slow_collect SlowQueryLogSpec_init = False
   \<and> slow_fileName SlowQueryLogSpec_init = ''slow_query.log''
   \<and> slow_prefix SlowQueryLogSpec_init = None"
  by (simp add: GeneralLogSpec_parse_def ErrorLogSpec_parse_def SlowQueryLogSpec_parse_def
        GeneralLogSpec_init_def ErrorLogSpec_init_def SlowQueryLogSpec_init_def)

section \<open>Rendering the general log configuration\<close>

text \<open>
  C5, as stated, fails: the body that \<^verbatim>\<open>GeneralLogSpec.get_cm_data\<close> renders starts with
  the comment line \<^verbatim>\<open># Generated by MySQL Operator for Kubernetes\<close>, so the entry for
  \<^verbatim>\<open>general-log.cnf\<close> is not the bare \<^verbatim>\<open>[mysqld]\<close> section, neither when the log is enabled
  nor when it is disabled.
\<close>

theorem GeneralLogSpec_get_cm_data_not_bare_section:
  "map_of (GeneralLogSpec_get_cm_data
             (GeneralLogSpec_init\<lparr>general_enabled := Some True,
                                  general_fileName := ''general_query.log''\<rparr>))
          ''general-log.cnf''
     \<noteq> Some ''[mysqld]\<newline>general_log=1\<newline>general_log_file=general_query.log''
   \<and> map_of (GeneralLogSpec_get_cm_data (GeneralLogSpec_init\<lparr>general_enabled := Some False\<rparr>))
          ''general-log.cnf''
     \<noteq> Some ''[mysqld]\<newline>general_log=0''"
  by (simp add: GeneralLogSpec_get_cm_data_def GeneralLogSpec_init_def)

text \<open>
  C5, amended. For a \<^verbatim>\<open>GeneralLogSpec\<close> with enabled true and file name
  \<^verbatim>\<open>general_query.log\<close>, the mapping has the one entry \<^verbatim>\<open>general-log.cnf\<close>, and it is the
  generated-by comment line followed by the section, \<^verbatim>\<open>general_log=1\<close> and the
  \<^verbatim>\<open>general_log_file\<close> line; with enabled false it is the comment line, the section and
  \<^verbatim>\<open>general_log=0\<close>. The other fields (collect, prefix) do not matter.
\<close>

theorem GeneralLogSpec_get_cm_data_rendering:
  "GeneralLogSpec_get_cm_data
     (GeneralLogSpec_init\<lparr>general_enabled := Some True, general_collect := c,
                          general_fileName := ''general_query.log'', general_prefix := p\<rparr>)
     = [(''general-log.cnf'',
         ''# Generated by MySQL Operator for Kubernetes\<newline>[mysqld]\<newline>general_log=1\<newline>general_log_file=general_query.log'')]
   \<and> GeneralLogSpec_get_cm_data
     (GeneralLogSpec_init\<lparr>general_enabled := Some False, general_collect := c,
                          general_fileName := f, general_prefix := p\<rparr>)
     = [(''general-log.cnf'',
         ''# Generated by MySQL Operator for Kubernetes\<newline>[mysqld]\<newline>general_log=0'')]"
  by (simp add: GeneralLogSpec_get_cm_data_def GeneralLogSpec_init_def)

section \<open>Validation of the slow query log\<close>

text \<open>
  C6, as stated, fails: \<^verbatim>\<open>validate\<close> tests \<^verbatim>\<open>self._prefix and self.collect and not self.enabled\<close>,
  and the empty string is false. After \<^verbatim>\<open>parse\<close> of the non-empty fragment
  \<^verbatim>\<open>{"collect": True, "enabled": False}\<close> with the empty string as prefix, \<^verbatim>\<open>validate\<close>
  returns normally.
\<close>

theorem SlowQueryLogSpec_validate_empty_prefix:
  "and_then (SlowQueryLogSpec_parse SlowQueryLogSpec_init
               (Some [(''collect'', PBool True), (''enabled'', PBool False)]) [])
            SlowQueryLogSpec_validate
     = Inr ()"
  by (simp add: SlowQueryLogSpec_parse_def Let_def SlowQueryLogSpec_validate_def SlowQueryLogSpec_init_def
        has_key_def dget_bool_def)

text \<open>What \<^verbatim>\<open>parse\<close> of a non-empty fragment stores.\<close>

lemma SlowQueryLogSpec_parse_fields:
  assumes "SlowQueryLogSpec_parse self (Some d) p = Inr s" and "d \<noteq> []"
  shows "slow_prefix s = Some p"
    and "slow_longQueryTime s
           = (case map_of d ''longQueryTime'' of None \<Rightarrow> slow_longQueryTime self | Some v \<Rightarrow> v)"
    and "map_of d ''enabled'' = Some (PBool b) \<Longrightarrow> slow_enabled s = Some b"
    and "map_of d ''collect'' = Some (PBool b) \<Longrightarrow> slow_collect s = b"
  using assms
  by (auto simp add: SlowQueryLogSpec_parse_def Let_def and_then_def has_key_def dget_bool_def
        split: if_splits option.splits sum.splits pyval.splits)

text \<open>
  C6, amended. \<^verbatim>\<open>SlowQueryLogSpec.validate\<close>, called after \<^verbatim>\<open>parse\<close> of a non-empty fragment
  \<open>d\<close> with the prefix \<open>p\<close> on a fresh instance,
  \<^item> raises the specification error on longQueryTime when the fragment gives a negative
    int or float (\<open>-1\<close> for one);
  \<^item> raises a specification error when the fragment gives collect true and enabled
    false, provided the prefix \<open>p\<close> is not the empty string;
  \<^item> returns normally when the fragment gives collect true and enabled true, with
    longQueryTime absent or not below zero.
\<close>

theorem SlowQueryLogSpec_validate_after_parse:
  assumes "SlowQueryLogSpec_parse SlowQueryLogSpec_init (Some d) p = Inr s"
      and "d \<noteq> []"
  shows "(\<forall>v. map_of d ''longQueryTime'' = Some v \<and> is_int_or_float v \<and> less_than_zero v \<longrightarrow>
            SlowQueryLogSpec_validate s
              = Inl (ApiSpecError (p @ ''.longQueryTime must not be negative'')))
       \<and> (p \<noteq> [] \<and> map_of d ''collect'' = Some (PBool True)
            \<and> map_of d ''enabled'' = Some (PBool False) \<longrightarrow>
            (\<exists>msg. SlowQueryLogSpec_validate s = Inl (ApiSpecError msg)))
       \<and> (map_of d ''collect'' = Some (PBool True) \<and> map_of d ''enabled'' = Some (PBool True)
            \<and> (map_of d ''longQueryTime'' = None
                \<or> (\<exists>v. map_of d ''longQueryTime'' = Some v \<and> \<not> less_than_zero v)) \<longrightarrow>
            SlowQueryLogSpec_validate s = Inr ())"
proof -
  note f = SlowQueryLogSpec_parse_fields [OF assms]
  have pre: "slow_prefix s = Some p" by (rule f(1))
  show ?thesis
  proof (intro conjI impI allI)
    fix v
    assume "map_of d ''longQueryTime'' = Some v \<and> is_int_or_float v \<and> less_than_zero v"
    then have "slow_longQueryTime s = v" "is_int_or_float v" "less_than_zero v"
      using f(2) by simp_all
    then show "SlowQueryLogSpec_validate s
                 = Inl (ApiSpecError (p @ ''.longQueryTime must not be negative''))"
      using pre by (simp add: SlowQueryLogSpec_validate_def)
  next
    assume a: "p \<noteq> [] \<and> map_of d ''collect'' = Some (PBool True)
                 \<and> map_of d ''enabled'' = Some (PBool False)"
    then have "slow_collect s" "slow_enabled s = Some False" using f(3,4) by auto
    then show "\<exists>msg. SlowQueryLogSpec_validate s = Inl (ApiSpecError msg)"
      using pre a by (simp add: SlowQueryLogSpec_validate_def)
  next
    assume a: "map_of d ''collect'' = Some (PBool True) \<and> map_of d ''enabled'' = Some (PBool True)
            \<and> (map_of d ''longQueryTime'' = None
                \<or> (\<exists>v. map_of d ''longQueryTime'' = Some v \<and> \<not> less_than_zero v))"
    then have "slow_collect s" "slow_enabled s = Some True" using f(3,4) by auto
    moreover have "\<not> less_than_zero (slow_longQueryTime s)"
      using a f(2) by (auto simp add: SlowQueryLogSpec_init_def)
    ultimately show "SlowQueryLogSpec_validate s = Inr ()"
      by (simp add: SlowQueryLogSpec_validate_def)
  qed
qed

text \<open>The three cases at the prefix \<^verbatim>\<open>spec.logs.slowQuery\<close>, each after \<^verbatim>\<open>parse\<close> of a fragment.\<close>

theorem SlowQueryLogSpec_validate_after_parse_witness:
  "SlowQueryLogSpec_validate
     (SlowQueryLogSpec_init\<lparr>slow_longQueryTime := PInt (- 1), slow_prefix := Some ''spec.logs.slowQuery''\<rparr>)
     = Inl (ApiSpecError ''spec.logs.slowQuery.longQueryTime must not be negative'')
   \<and> (\<exists>msg. SlowQueryLogSpec_validate
        (SlowQueryLogSpec_init\<lparr>slow_enabled := Some False, slow_collect := True,
                               slow_prefix := Some ''spec.logs.slowQuery''\<rparr>)
        = Inl (ApiSpecError msg))
   \<and> SlowQueryLogSpec_validate
       (SlowQueryLogSpec_init\<lparr>slow_enabled := Some True, slow_longQueryTime := PInt 2,
                              slow_collect := True, slow_prefix := Some ''spec.logs.slowQuery''\<rparr>)
     = Inr ()"
proof -
  let ?p = "''spec.logs.slowQuery''"
  let ?d1 = "[(''longQueryTime'', PInt (- 1))]"
  let ?d2 = "[(''enabled'', PBool False), (''collect'', PBool True)]"
  let ?d3 = "[(''enabled'', PBool True), (''longQueryTime'', PInt 2), (''collect'', PBool True)]"
  have p1: "SlowQueryLogSpec_parse SlowQueryLogSpec_init (Some ?d1) ?p
              = Inr (SlowQueryLogSpec_init\<lparr>slow_longQueryTime := PInt (- 1), slow_prefix := Some ?p\<rparr>)"
    by (simp add: SlowQueryLogSpec_parse_def Let_def SlowQueryLogSpec_init_def has_key_def dget_bool_def)
  have p2: "SlowQueryLogSpec_parse SlowQueryLogSpec_init (Some ?d2) ?p
              = Inr (SlowQueryLogSpec_init\<lparr>slow_enabled := Some False, slow_collect := True,
                                            slow_prefix := Some ?p\<rparr>)"
    by (simp add: SlowQueryLogSpec_parse_def Let_def SlowQueryLogSpec_init_def has_key_def dget_bool_def)
  have p3: "SlowQueryLogSpec_parse SlowQueryLogSpec_init (Some ?d3) ?p
              = Inr (SlowQueryLogSpec_init\<lparr>slow_enabled := Some True, slow_longQueryTime := PInt 2,
                                            slow_collect := True, slow_prefix := Some ?p\<rparr>)"
    by (simp add: SlowQueryLogSpec_parse_def Let_def SlowQueryLogSpec_init_def has_key_def dget_bool_def)
  show ?thesis
    using SlowQueryLogSpec_validate_after_parse [OF p1]
          SlowQueryLogSpec_validate_after_parse [OF p2]
          SlowQueryLogSpec_validate_after_parse [OF p3]
    by simp
qed

section \<open>A longQueryTime that is not a number\<close>

text \<open>
  C9, as stated, fails in its last part: \<^verbatim>\<open>get_cm_data\<close> writes the \<^verbatim>\<open>long_query_time\<close> line
  inside \<^verbatim>\<open>if self.enabled\<close>. With the string \<^verbatim>\<open>"-5"\<close> stored and enabled unset, the body has
  no such line.
\<close>

theorem SlowQueryLogSpec_get_cm_data_disabled_untyped:
  "SlowQueryLogSpec_get_cm_data (\<lambda>v. [])
     (SlowQueryLogSpec_init\<lparr>slow_longQueryTime := PStr ''-5'',
                            slow_prefix := Some ''spec.logs.slowQuery''\<rparr>)
     = [(''slow-query-log.cnf'',
         ''# Generated by MySQL Operator for Kubernetes\<newline>[mysqld]\<newline>slow_query_log=0'')]"
  by (simp add: SlowQueryLogSpec_get_cm_data_def SlowQueryLogSpec_init_def)

text \<open>
  C9, amended. If the stored longQueryTime \<open>v\<close> is neither an int nor a float, then
  \<^verbatim>\<open>validate\<close> does what it does with the field unset, so it never raises the longQueryTime
  error; and when the log is enabled, a true \<open>v\<close> is formatted into the
  \<^verbatim>\<open>long_query_time\<close> line that ends the body, a string \<open>t\<close> as it is. When the log is
  not enabled the body ends with \<^verbatim>\<open>slow_query_log=0\<close> and has no such line.
\<close>

theorem SlowQueryLogSpec_untyped_longQueryTime:
  assumes "\<not> is_int_or_float v"
  shows "SlowQueryLogSpec_validate (self\<lparr>slow_longQueryTime := v\<rparr>)
           = SlowQueryLogSpec_validate (self\<lparr>slow_longQueryTime := PNone\<rparr>)
       \<and> SlowQueryLogSpec_validate (self\<lparr>slow_longQueryTime := v\<rparr>)
           \<noteq> Inl (ApiSpecError
                    (format_prefix (slow_prefix self) @ ''.longQueryTime must not be negative''))
       \<and> (truthy v \<and> enabled_true (slow_enabled self) \<longrightarrow>
            SlowQueryLogSpec_get_cm_data builtin_str (self\<lparr>slow_longQueryTime := v\<rparr>)
              = [(config_file_name self,
                  ''# Generated by MySQL Operator for Kubernetes\<newline>[mysqld]\<newline>slow_query_log=1''
                  @ ''\<newline>slow_query_log_file='' @ [CHR 0x27] @ slow_fileName self @ [CHR 0x27]
                  @ ''\<newline>log_slow_admin_statements=1''
                  @ ''\<newline>long_query_time='' @ format_value builtin_str v)])
       \<and> (t \<noteq> [] \<and> enabled_true (slow_enabled self) \<longrightarrow>
            SlowQueryLogSpec_get_cm_data builtin_str (self\<lparr>slow_longQueryTime := PStr t\<rparr>)
              = [(config_file_name self,
                  ''# Generated by MySQL Operator for Kubernetes\<newline>[mysqld]\<newline>slow_query_log=1''
                  @ ''\<newline>slow_query_log_file='' @ [CHR 0x27] @ slow_fileName self @ [CHR 0x27]
                  @ ''\<newline>log_slow_admin_statements=1''
                  @ ''\<newline>long_query_time='' @ t)])
       \<and> (\<not> enabled_true (slow_enabled self) \<longrightarrow>
            SlowQueryLogSpec_get_cm_data builtin_str (self\<lparr>slow_longQueryTime := v\<rparr>)
              = [(config_file_name self,
                  ''# Generated by MySQL Operator for Kubernetes\<newline>[mysqld]\<newline>slow_query_log=0'')])"
proof (intro conjI impI)
  show "SlowQueryLogSpec_validate (self\<lparr>slow_longQueryTime := v\<rparr>)
           = SlowQueryLogSpec_validate (self\<lparr>slow_longQueryTime := PNone\<rparr>)"
    using assms by (simp add: SlowQueryLogSpec_validate_def)
  show "SlowQueryLogSpec_validate (self\<lparr>slow_longQueryTime := v\<rparr>)
           \<noteq> Inl (ApiSpecError
                    (format_prefix (slow_prefix self) @ ''.longQueryTime must not be negative''))"
    using assms by (simp add: SlowQueryLogSpec_validate_def)
qed (simp_all add: SlowQueryLogSpec_get_cm_data_def)

text \<open>The string \<^verbatim>\<open>"-5"\<close>, with the log enabled and with enabled unset.\<close>

theorem SlowQueryLogSpec_untyped_longQueryTime_witness:
  "\<not> is_int_or_float (PStr ''-5'')
   \<and> SlowQueryLogSpec_validate
       (SlowQueryLogSpec_init\<lparr>slow_enabled := Some True, slow_longQueryTime := PStr ''-5''\<rparr>)
     = Inr ()
   \<and> SlowQueryLogSpec_get_cm_data (\<lambda>v. [])
       (SlowQueryLogSpec_init\<lparr>slow_enabled := Some True, slow_longQueryTime := PStr ''-5''\<rparr>)
     = [(''slow-query-log.cnf'',
         ''# Generated by MySQL Operator for Kubernetes\<newline>[mysqld]\<newline>slow_query_log=1\<newline>slow_query_log_file=''
         @ [CHR 0x27] @ ''slow_query.log'' @ [CHR 0x27]
         @ ''\<newline>log_slow_admin_statements=1\<newline>long_query_time=-5'')]
   \<and> SlowQueryLogSpec_get_cm_data (\<lambda>v. [])
       (SlowQueryLogSpec_init\<lparr>slow_longQueryTime := PStr ''-5''\<rparr>)
     = [(''slow-query-log.cnf'',
         ''# Generated by MySQL Operator for Kubernetes\<newline>[mysqld]\<newline>slow_query_log=0'')]"
proof -
  have h: "\<not> is_int_or_float (PStr ''-5'')" by simp
  have e: "enabled_true (slow_enabled (SlowQueryLogSpec_init\<lparr>slow_enabled := Some True\<rparr>))"
    by simp
  have d: "\<not> enabled_true (slow_enabled SlowQueryLogSpec_init)"
    by (simp add: SlowQueryLogSpec_init_def)
  show ?thesis
    using h e d
      SlowQueryLogSpec_untyped_longQueryTime
        [OF h, of "SlowQueryLogSpec_init\<lparr>slow_enabled := Some True\<rparr>" "\<lambda>v. []" "''-5''"]
      SlowQueryLogSpec_untyped_longQueryTime
        [OF h, of "SlowQueryLogSpec_init" "\<lambda>v. []" "''-5''"]
    by (simp add: SlowQueryLogSpec_init_def SlowQueryLogSpec_validate_def)
qed

section \<open>The guard of the collect check\<close>

text \<open>
  C10. \<^verbatim>\<open>GeneralLogSpec.validate\<close> raises exactly when collect is true and enabled is not
  true, whatever the stored prefix is, so also when \<^verbatim>\<open>parse\<close> was never called (the
  message then names the prefix \<^verbatim>\<open>None\<close>). \<^verbatim>\<open>SlowQueryLogSpec.validate\<close> with the prefix unset
  (or empty) does not look at collect and enabled: only the test of longQueryTime is left,
  and on an instance with collect true, the prefix unset and longQueryTime unset it
  returns normally, whatever enabled is. With a prefix that is set and not empty the check is made.
\<close>

theorem collect_check_guards:
  "isl (GeneralLogSpec_validate g) = (general_collect g \<and> \<not> enabled_true (general_enabled g))
   \<and> GeneralLogSpec_validate
       (g\<lparr>general_enabled := e, general_collect := True, general_prefix := None\<rparr>)
     = (if enabled_true e then Inr ()
        else Inl (ApiSpecError ''None.collect is enabled while None.enabled is not''))
   \<and> GeneralLogSpec_validate (GeneralLogSpec_init\<lparr>general_collect := True\<rparr>)
     = Inl (ApiSpecError ''None.collect is enabled while None.enabled is not'')
   \<and> SlowQueryLogSpec_validate (s\<lparr>slow_prefix := None\<rparr>)
     = (if is_int_or_float (slow_longQueryTime s) \<and> less_than_zero (slow_longQueryTime s)
        then Inl (ApiSpecError ''None.longQueryTime must not be negative'')
        else Inr ())
   \<and> SlowQueryLogSpec_validate (s\<lparr>slow_prefix := Some []\<rparr>)
     = (if is_int_or_float (slow_longQueryTime s) \<and> less_than_zero (slow_longQueryTime s)
        then Inl (ApiSpecError ''.longQueryTime must not be negative'')
        else Inr ())
   \<and> SlowQueryLogSpec_validate
       (s\<lparr>slow_enabled := e, slow_longQueryTime := PNone, slow_collect := True,
          slow_prefix := None\<rparr>)
     = Inr ()
   \<and> SlowQueryLogSpec_validate (SlowQueryLogSpec_init\<lparr>slow_collect := True\<rparr>) = Inr ()
   \<and> SlowQueryLogSpec_validate
       (s\<lparr>slow_enabled := e, slow_longQueryTime := PNone, slow_collect := True,
          slow_prefix := Some (c # p)\<rparr>)
     = (if enabled_true e then Inr ()
        else Inl (ApiSpecError ((c # p) @ ''.collect is enabled while '' @ (c # p)
                                @ ''.enabled is not'')))"
  by (simp add: GeneralLogSpec_validate_def SlowQueryLogSpec_validate_def
        GeneralLogSpec_init_def SlowQueryLogSpec_init_def)

section \<open>The typed form: helper facts\<close>

lemma keeps_eq: "keeps n = (\<lambda>v. truthy v \<and> get_object_name v \<noteq> Inr (PStr n))"
  by (simp add: fun_eq_iff keeps_def)

subsection \<open>The filter\<close>

lemma volume_entry_name [simp]:
  "get_object_name (volume_entry X cm) = Inr (PStr (volume_mount_name X))"
  "truthy (volume_entry X cm)"
  by (simp_all add: volume_entry_def get_object_name_def)

lemma mount_entry_name [simp]:
  "get_object_name (mount_entry X) = Inr (PStr (volume_mount_name X))"
  "truthy (mount_entry X)"
  by (simp_all add: mount_entry_def get_object_name_def)

subsection \<open>Swapping\<close>

lemma swap_last_two_append [simp]: "swap_last_two (xs @ [a, b]) = xs @ [b, a]"
proof (induction xs)
  case Nil
  show ?case by simp
next
  case (Cons x xs)
  then show ?case by (cases xs) (simp_all, (case_tac list; simp)?)
qed


subsection \<open>Attribute lists\<close>

lemma update_commute:
  "k \<noteq> k' \<Longrightarrow> k \<in> fst ` set al \<Longrightarrow>
     AList.update k v (AList.update k' v' al) = AList.update k' v' (AList.update k v al)"
  by (induction al) auto

lemma map_of_present: "map_of al k = Some v \<Longrightarrow> k \<in> fst ` set al"
  by (metis map_of_eq_None_iff option.distinct(1))

subsection \<open>The container that matches\<close>

lemma patch_container_obj:
  assumes "map_of ca ''volume_mounts'' = Some vms" and "py_iter vms = Inr ms"
      and "keep_others (volume_mount_name X) ms = Inr ks"
  shows "patch_container X (PObj cc ca)
           = Inr (PObj cc (AList.update ''volume_mounts'' (PList (ks @ [mount_entry X])) ca))"
  using assms by (simp add: patch_container_def update_conv')

lemma patch_container_Inr:
  assumes "patch_container X c = Inr c'"
  obtains cc ca vms ms ks where "c = PObj cc ca" and "map_of ca ''volume_mounts'' = Some vms"
    and "py_iter vms = Inr ms" and "keep_others (volume_mount_name X) ms = Inr ks"
    and "c' = PObj cc (AList.update ''volume_mounts'' (PList (ks @ [mount_entry X])) ca)"
proof (cases c)
  case (PObj cc ca)
  with assms obtain vms where vms: "map_of ca ''volume_mounts'' = Some vms"
    by (auto simp add: patch_container_def split: option.splits)
  with assms PObj obtain ms where ms: "py_iter vms = Inr ms"
    by (auto simp add: patch_container_def and_then_eq_Inr)
  with assms PObj vms obtain ks where ks: "keep_others (volume_mount_name X) ms = Inr ks"
    by (auto simp add: patch_container_def and_then_eq_Inr)
  from assms PObj have "c' = PObj cc (AList.update ''volume_mounts'' (PList (ks @ [mount_entry X])) ca)"
    by (simp add: patch_container_obj [OF vms ms ks])
  with PObj vms ms ks that show ?thesis by blast
qed (use assms in \<open>simp_all add: patch_container_def\<close>)

subsection \<open>The loop over the containers\<close>

lemma patch_first_container_skips:
  "skips cn pre \<Longrightarrow>
     patch_first_container X cn (pre @ ys)
       = and_then (patch_first_container X cn ys) (\<lambda>r. Inr (pre @ fst r, snd r))"
proof (induction pre)
  case Nil
  show ?case by (cases "patch_first_container X cn ys") simp_all
next
  case (Cons c pre)
  from Cons.prems obtain nm where nm: "get_object_name c = Inr nm" "nm \<noteq> PStr cn"
    and pre: "skips cn pre"
    by (cases "get_object_name c") (auto simp add: skips_def)
  from Cons.IH [OF pre] nm show ?case
    by (cases "patch_first_container X cn ys") simp_all
qed

lemma patch_first_container_at:
  assumes "skips cn pre" and "get_object_name c = Inr (PStr cn)"
  shows "patch_first_container X cn (pre @ c # post)
           = and_then (patch_container X c) (\<lambda>c'. Inr (pre @ c' # post, True))"
  using assms(2) by (cases "patch_container X c") (simp_all add: patch_first_container_skips [OF assms(1)])

lemma patch_first_container_not_found:
  "patch_first_container X cn cs = Inr (cs', False) \<Longrightarrow> cs' = cs \<and> skips cn cs"
proof (induction cs arbitrary: cs')
  case Nil
  then show ?case by (simp add: skips_def)
next
  case (Cons c cs)
  from Cons.prems obtain nm where nm: "get_object_name c = Inr nm"
    by (auto simp add: and_then_eq_Inr)
  with Cons.prems have ne: "nm \<noteq> PStr cn"
    by (auto simp add: and_then_eq_Inr)
  with Cons.prems nm obtain r where r: "patch_first_container X cn cs = Inr r"
    and cs': "cs' = c # fst r" "snd r = False"
    by (auto simp add: and_then_eq_Inr)
  from r cs'(2) have "patch_first_container X cn cs = Inr (fst r, False)"
    by (metis prod.collapse)
  from Cons.IH [OF this] cs' nm ne show ?case by (simp add: skips_def)
qed

lemma patch_first_container_found:
  assumes "patch_first_container X cn cs = Inr (cs', True)"
  obtains pre c post c' where "cs = pre @ c # post" and "skips cn pre"
    and "get_object_name c = Inr (PStr cn)" and "patch_container X c = Inr c'"
    and "cs' = pre @ c' # post"
  using assms
proof (induction cs arbitrary: cs' thesis)
  case Nil
  then show ?case by simp
next
  case (Cons c cs)
  from Cons.prems(2) obtain nm where nm: "get_object_name c = Inr nm"
    by (auto simp add: and_then_eq_Inr)
  show ?case
  proof (cases "nm = PStr cn")
    case True
    with Cons.prems(2) nm obtain c' where "patch_container X c = Inr c'" "cs' = c' # cs"
      by (auto simp add: and_then_eq_Inr)
    with Cons.prems(1) [of "[]" c cs c'] nm True show ?thesis by (simp add: skips_def)
  next
    case False
    with Cons.prems(2) nm obtain r where r: "patch_first_container X cn cs = Inr r"
      and cs': "cs' = c # fst r" "snd r = True"
      by (auto simp add: and_then_eq_Inr)
    from r cs'(2) have "patch_first_container X cn cs = Inr (fst r, True)"
      by (metis prod.collapse)
    then obtain pre d post d' where d: "cs = pre @ d # post" "skips cn pre"
      "get_object_name d = Inr (PStr cn)" "patch_container X d = Inr d'"
      "fst r = pre @ d' # post"
      using Cons.IH by blast
    with Cons.prems(1) [of "c # pre" d post d'] nm False cs' show ?thesis
      by (simp add: skips_def)
  qed
qed

lemma upd_first_named_at:
  "skips cn pre \<Longrightarrow> get_object_name c = Inr (PStr cn) \<Longrightarrow>
     upd_first_named cn f (pre @ c # post) = pre @ f c # post"
  by (induction pre) (auto simp add: skips_def)


lemma readable_simps [simp]:
  "readable []"
  "readable (v # vs) = ((\<not> truthy v \<or> \<not> isl (get_object_name v)) \<and> readable vs)"
  "readable (xs @ ys) = (readable xs \<and> readable ys)"
  "readable xs \<Longrightarrow> readable (filter P xs)"
  by (auto simp add: readable_def list_all_iff)

lemma keep_others_readable:
  "readable xs \<Longrightarrow> keep_others n xs = Inr (filter (keeps n) xs)"
proof (induction xs)
  case Nil
  show ?case by simp
next
  case (Cons v vs)
  then show ?case by (cases "get_object_name v") (auto simp add: keeps_eq)
qed

lemma keep_others_Inr_readable:
  "keep_others n xs = Inr ks \<Longrightarrow> readable xs"
proof (induction xs arbitrary: ks)
  case Nil
  show ?case by simp
next
  case (Cons v vs)
  then show ?case by (cases "truthy v") (auto simp add: and_then_eq_Inr)
qed

lemma keep_others_eq_Inr:
  "keep_others n xs = Inr ks \<longleftrightarrow> readable xs \<and> ks = filter (keeps n) xs"
  using keep_others_readable keep_others_Inr_readable by fastforce

lemma keeps_entries [simp]:
  "keeps m (volume_entry X cm) = (volume_mount_name X \<noteq> m)"
  "keeps m (mount_entry X) = (volume_mount_name X \<noteq> m)"
  by (simp_all add: keeps_def)

lemma readable_entries [simp]:
  "readable [volume_entry X cm]" "readable [mount_entry X]"
  by simp_all

subsection \<open>One call on the pod specification\<close>

lemma typed_add_volumes_obj:
  assumes "map_of al ''volumes'' = Some vols" and "py_iter vols = Inr vs" and "readable vs"
  shows "typed_add_volumes X cm (PObj pc al)
           = Inr (PObj pc (AList.update ''volumes''
                    (PList (filter (keeps (volume_mount_name X)) vs @ [volume_entry X cm])) al))"
  using assms by (simp add: typed_add_volumes_def update_conv' keep_others_readable)

lemma typed_add_containers_obj:
  assumes "map_of al ''containers'' = Some (PList (pre @ PObj cc ca # post))"
      and "skips cn pre"
      and "map_of ca ''name'' = Some (PStr cn)"
      and "map_of ca ''volume_mounts'' = Some vms" and "py_iter vms = Inr ms" and "readable ms"
  shows "typed_add_containers X cn (PObj pc al)
           = Inr (PObj pc (AList.update ''containers''
                    (PList (pre @ PObj cc (AList.update ''volume_mounts''
                              (PList (filter (keeps (volume_mount_name X)) ms @ [mount_entry X])) ca)
                            # post)) al))"
proof -
  have n: "get_object_name (PObj cc ca) = Inr (PStr cn)"
    using assms(3) by (simp add: get_object_name_def)
  have p: "patch_container X (PObj cc ca)
             = Inr (PObj cc (AList.update ''volume_mounts''
                      (PList (filter (keeps (volume_mount_name X)) ms @ [mount_entry X])) ca))"
    using assms(4-6) by (simp add: patch_container_obj keep_others_readable)
  show ?thesis
    using assms(1) by (simp add: typed_add_containers_def patch_first_container_at [OF assms(2) n] p)
qed

lemma attrs_normal:
  assumes "''containers'' \<in> fst ` set al"
  shows "AList.update ''volumes'' V2 (AList.update ''containers'' C2
           (AList.update ''volumes'' V1 (AList.update ''containers'' C1 al)))
         = AList.update ''volumes'' V2 (AList.update ''containers'' C2 al)"
proof -
  have "''containers'' \<in> fst ` set (AList.update ''containers'' C1 al)"
    by (simp add: dom_update)
  then have "AList.update ''containers'' C2 (AList.update ''volumes'' V1 (AList.update ''containers'' C1 al))
        = AList.update ''volumes'' V1 (AList.update ''containers'' C2 (AList.update ''containers'' C1 al))"
    by (intro update_commute) simp_all
  then show ?thesis by simp
qed

lemma step_ready:
  assumes "pod_ready cn al pre cc ca post ms vs"
  shows "and_then (typed_add_containers X cn (PObj pc al)) (typed_add_volumes X cm)
           = Inr (pod_after pc al pre cc ca post
                    (filter (keeps (volume_mount_name X)) ms @ [mount_entry X])
                    (filter (keeps (volume_mount_name X)) vs @ [volume_entry X cm]))"
proof -
  from assms obtain vms vols where
    a: "skips cn pre" "map_of ca ''name'' = Some (PStr cn)" "readable ms" "readable vs"
       "map_of al ''containers'' = Some (PList (pre @ PObj cc ca # post))"
       "map_of ca ''volume_mounts'' = Some vms" "py_iter vms = Inr ms"
       "map_of al ''volumes'' = Some vols" "py_iter vols = Inr vs"
    by (auto simp add: pod_ready_def)
  have v: "map_of (AList.update ''containers'' C al) ''volumes'' = Some vols" for C
    using a(8) by (simp add: update_conv')
  show ?thesis
    by (simp add: typed_add_containers_obj [OF a(5) a(1) a(2) a(6) a(7) a(3)]
          typed_add_volumes_obj [OF v a(9) a(4)] pod_after_def)
qed

lemma after_ready:
  assumes "pod_ready cn al pre cc ca post ms vs" and "readable ms'" and "readable vs'"
  shows "\<exists>al' ca'. pod_after pc al pre cc ca post ms' vs' = PObj pc al'
           \<and> pod_ready cn al' pre cc ca' post ms' vs'
           \<and> (\<forall>ms'' vs''. pod_after pc al' pre cc ca' post ms'' vs'' = pod_after pc al pre cc ca post ms'' vs'')"
proof -
  let ?ca = "AList.update ''volume_mounts'' (PList ms') ca"
  let ?al = "AList.update ''volumes'' (PList vs')
       (AList.update ''containers'' (PList (pre @ PObj cc ?ca # post)) al)"
  from assms(1) have c: "''containers'' \<in> fst ` set al"
    by (auto simp add: pod_ready_def dest: map_of_present)
  have "pod_after pc al pre cc ca post ms' vs' = PObj pc ?al" by (simp add: pod_after_def)
  moreover have "pod_ready cn ?al pre cc ?ca post ms' vs'"
    using assms by (simp add: pod_ready_def update_conv')
  moreover have "pod_after pc ?al pre cc ?ca post ms'' vs'' = pod_after pc al pre cc ca post ms'' vs''"
    for ms'' vs''
    by (simp add: pod_after_def attrs_normal [OF c])
  ultimately show ?thesis by blast
qed

lemma two_steps_ready:
  assumes r: "pod_ready cn al pre cc ca post ms vs"
      and ne: "volume_mount_name X \<noteq> volume_mount_name Y"
  shows "and_then (and_then (and_then (typed_add_containers X cn (PObj pc al)) (typed_add_volumes X cmX))
                     (typed_add_containers Y cn)) (typed_add_volumes Y cmY)
           = Inr (pod_after pc al pre cc ca post
                    (filter (keeps (volume_mount_name Y)) (filter (keeps (volume_mount_name X)) ms)
                       @ [mount_entry X, mount_entry Y])
                    (filter (keeps (volume_mount_name Y)) (filter (keeps (volume_mount_name X)) vs)
                       @ [volume_entry X cmX, volume_entry Y cmY]))"
proof -
  let ?ms = "filter (keeps (volume_mount_name X)) ms @ [mount_entry X]"
  let ?vs = "filter (keeps (volume_mount_name X)) vs @ [volume_entry X cmX]"
  from r have rd: "readable ?ms" "readable ?vs" by (simp_all add: pod_ready_def)
  from after_ready [OF r rd, of pc] obtain al' ca' where
    eq: "pod_after pc al pre cc ca post ?ms ?vs = PObj pc al'"
    and r': "pod_ready cn al' pre cc ca' post ?ms ?vs"
    and same: "\<And>ms'' vs''. pod_after pc al' pre cc ca' post ms'' vs'' = pod_after pc al pre cc ca post ms'' vs''"
    by blast
  have "and_then (and_then (and_then (typed_add_containers X cn (PObj pc al)) (typed_add_volumes X cmX))
                     (typed_add_containers Y cn)) (typed_add_volumes Y cmY)
        = and_then (typed_add_containers Y cn (PObj pc al')) (typed_add_volumes Y cmY)"
    by (simp add: step_ready [OF r] eq)
  also have "\<dots> = Inr (pod_after pc al' pre cc ca' post
                    (filter (keeps (volume_mount_name Y)) ?ms @ [mount_entry Y])
                    (filter (keeps (volume_mount_name Y)) ?vs @ [volume_entry Y cmY]))"
    by (rule step_ready [OF r'])
  finally show ?thesis using ne by (simp add: same)
qed


lemma py_iter_of_named:
  assumes "py_iter v = Inr xs" and "c \<in> set xs" and "get_object_name c = Inr nm"
  shows "v = PList xs"
  using assms by (cases v) (auto simp add: get_object_name_def)

lemma typed_add_volumes_Inr:
  assumes "typed_add_volumes X cm p = Inr p'"
  obtains pc al vols vs where "p = PObj pc al" and "map_of al ''volumes'' = Some vols"
    and "py_iter vols = Inr vs" and "readable vs"
    and "p' = PObj pc (AList.update ''volumes''
                    (PList (filter (keeps (volume_mount_name X)) vs @ [volume_entry X cm])) al)"
proof (cases p)
  case (PObj pc al)
  with assms obtain vols where vols: "map_of al ''volumes'' = Some vols"
    by (auto simp add: typed_add_volumes_def split: option.splits)
  with assms PObj obtain vs where vs: "py_iter vols = Inr vs"
    by (auto simp add: typed_add_volumes_def and_then_eq_Inr)
  with assms PObj vols obtain ks where "keep_others (volume_mount_name X) vs = Inr ks"
    by (auto simp add: typed_add_volumes_def and_then_eq_Inr)
  then have rd: "readable vs" by (rule keep_others_Inr_readable)
  from assms PObj have "p' = PObj pc (AList.update ''volumes''
                    (PList (filter (keeps (volume_mount_name X)) vs @ [volume_entry X cm])) al)"
    by (simp add: typed_add_volumes_obj [OF vols vs rd])
  with PObj vols vs rd that show ?thesis by blast
qed (use assms in \<open>simp_all add: typed_add_volumes_def\<close>)

lemma ready_of_success:
  assumes "and_then (and_then (typed_add_containers A cn pod) (typed_add_volumes A cmA))
             (typed_add_containers B cn) = Inr p3"
  shows "\<exists>pc al pre cc ca post ms vs. pod = PObj pc al \<and> pod_ready cn al pre cc ca post ms vs"
proof -
  from assms obtain p1 p2 where p1: "typed_add_containers A cn pod = Inr p1"
    and p2: "typed_add_volumes A cmA p1 = Inr p2"
    and p3: "typed_add_containers B cn p2 = Inr p3"
    by (auto simp add: and_then_eq_Inr)
  from p1 obtain pc al where pod: "pod = PObj pc al"
    by (cases pod) (simp_all add: typed_add_containers_def)
  with p1 obtain conts where conts: "map_of al ''containers'' = Some conts"
    by (auto simp add: typed_add_containers_def split: option.splits)
  with p1 pod obtain cs where cs: "py_iter conts = Inr cs"
    by (auto simp add: typed_add_containers_def and_then_eq_Inr)
  with p1 pod conts obtain cs' found where r: "patch_first_container A cn cs = Inr (cs', found)"
    by (cases "patch_first_container A cn cs") (auto simp add: typed_add_containers_def)
  show ?thesis
  proof (cases found)
    case False
    with r have sk: "skips cn cs" by (auto dest: patch_first_container_not_found)
    from p1 pod conts cs r False obtain conts' where
      c': "py_iadd conts (containers_patch A cn) = Inr conts'"
      and p1': "p1 = PObj pc (AList.update ''containers'' conts' al)"
      by (auto simp add: typed_add_containers_def and_then_eq_Inr)
    from c' cs have conts': "conts' = PList (cs @ [PStr ''containers''])"
      by (cases conts) (auto simp add: containers_patch_def)
    from p2 p1' obtain V where p2': "p2 = PObj pc (AList.update ''volumes'' V
          (AList.update ''containers'' conts' al))"
      by (auto elim!: typed_add_volumes_Inr)
    have "patch_first_container B cn (cs @ [PStr ''containers'']) = Inl AttributeError"
      by (simp add: patch_first_container_skips [OF sk] get_object_name_def)
    with p3 p2' conts' have False
      by (simp add: typed_add_containers_def update_conv')
    then show ?thesis ..
  next
    case True
    with r obtain pre c post c' where d: "cs = pre @ c # post" "skips cn pre"
      "get_object_name c = Inr (PStr cn)" "patch_container A c = Inr c'" "cs' = pre @ c' # post"
      by (auto elim!: patch_first_container_found)
    from d(4) obtain cc ca vms ms ks where c: "c = PObj cc ca"
      "map_of ca ''volume_mounts'' = Some vms" "py_iter vms = Inr ms"
      "keep_others (volume_mount_name A) ms = Inr ks"
      by (auto elim!: patch_container_Inr)
    from c(4) have rm: "readable ms" by (rule keep_others_Inr_readable)
    from d(3) c(1) have nm: "map_of ca ''name'' = Some (PStr cn)"
      by (auto simp add: get_object_name_def split: option.splits)
    from cs d(1,3) have cl: "conts = PList (pre @ c # post)"
      by (auto intro: py_iter_of_named [of conts _ c])
    from p1 pod conts cs r True have p1': "p1 = PObj pc (AList.update ''containers'' (PList cs') al)"
      by (simp add: typed_add_containers_def)
    from p2 p1' obtain vols vs where v: "map_of al ''volumes'' = Some vols" "py_iter vols = Inr vs"
      "readable vs"
      by (auto elim!: typed_add_volumes_Inr simp add: update_conv')
    from d(2) nm rm v conts cl c have "pod_ready cn al pre cc ca post ms vs"
      by (auto simp add: pod_ready_def)
    with pod show ?thesis by blast
  qed
qed

lemma swap_after:
  assumes "pod_ready cn al pre cc ca post ms vs"
  shows "swap_in_pod cn (pod_after pc al pre cc ca post ms' vs')
           = pod_after pc al pre cc ca post (swap_last_two ms') (swap_last_two vs')"
proof -
  from assms have sk: "skips cn pre" and nm: "map_of ca ''name'' = Some (PStr cn)"
    and c: "''containers'' \<in> fst ` set al"
    by (auto simp add: pod_ready_def dest: map_of_present)
  have n: "get_object_name (PObj cc (AList.update ''volume_mounts'' M ca)) = Inr (PStr cn)" for M
    using nm by (simp add: get_object_name_def update_conv')
  show ?thesis
    by (simp add: swap_in_pod_def pod_after_def upd_attr_def upd_list_def update_conv'
          upd_first_named_at [OF sk n] attrs_normal [OF c])
qed

lemma pod_two_kinds:
  assumes ne: "volume_mount_name A \<noteq> volume_mount_name B"
      and AB: "and_then (and_then (and_then (typed_add_containers A cn pod) (typed_add_volumes A cmA))
                     (typed_add_containers B cn)) (typed_add_volumes B cmB) = Inr p12"
  shows "and_then (and_then (and_then (typed_add_containers B cn pod) (typed_add_volumes B cmB))
                     (typed_add_containers A cn)) (typed_add_volumes A cmA)
           = Inr (swap_in_pod cn p12)"
proof -
  from AB obtain p3 where "and_then (and_then (typed_add_containers A cn pod) (typed_add_volumes A cmA))
             (typed_add_containers B cn) = Inr p3"
    by (auto simp add: and_then_eq_Inr)
  from ready_of_success [OF this] obtain pc al pre cc ca post ms vs where
    pod: "pod = PObj pc al" and r: "pod_ready cn al pre cc ca post ms vs"
    by blast
  from AB have p12: "p12 = pod_after pc al pre cc ca post
                    (filter (keeps (volume_mount_name B)) (filter (keeps (volume_mount_name A)) ms)
                       @ [mount_entry A, mount_entry B])
                    (filter (keeps (volume_mount_name B)) (filter (keeps (volume_mount_name A)) vs)
                       @ [volume_entry A cmA, volume_entry B cmB])"
    unfolding pod two_steps_ready [OF r ne] by simp
  show ?thesis
    unfolding pod two_steps_ready [OF r ne [symmetric]] p12 swap_after [OF r]
    by (simp add: conj_commute)
qed


lemma in_attr_obj:
  "in_attr a f (PObj c al) =
     (case map_of al a of
        None \<Rightarrow> Inl AttributeError
      | Some v \<Rightarrow> and_then (f v) (\<lambda>v'. Inr (PObj c (AList.update a v' al))))"
  by (simp add: in_attr_def split: option.splits)

lemma in_attr_fuse:
  "and_then (in_attr a f obj) (in_attr a g) = in_attr a (\<lambda>v. and_then (f v) g) obj"
proof (cases obj)
  case (PObj c al)
  show ?thesis
  proof (cases "map_of al a")
    case None
    with PObj show ?thesis by (simp add: in_attr_obj)
  next
    case (Some v)
    show ?thesis
    proof (cases "f v")
      case (Inl e)
      with PObj Some show ?thesis by (simp add: in_attr_obj)
    next
      case (Inr v')
      with PObj Some show ?thesis
        by (cases "g v'") (simp_all add: in_attr_obj update_conv')
    qed
  qed
qed (simp_all add: in_attr_def)

lemma in_attr_class:
  "in_attr a f (PObj c al) = Inr r \<Longrightarrow> \<exists>al'. r = PObj c al'"
  by (auto simp add: in_attr_obj and_then_eq_Inr split: option.splits)

lemma in_attr_lift:
  assumes "in_attr a F obj = Inr r" and "\<And>v v'. F v = Inr v' \<Longrightarrow> G v = Inr (h v')"
  shows "in_attr a G obj = Inr (upd_attr a h r)"
proof (cases obj)
  case (PObj c al)
  with assms(1) obtain v v' where v: "map_of al a = Some v" "F v = Inr v'"
    and r: "r = PObj c (AList.update a v' al)"
    by (auto simp add: in_attr_obj and_then_eq_Inr split: option.splits)
  from assms(2) [OF v(2)] PObj v(1) r show ?thesis
    by (simp add: in_attr_obj upd_attr_def update_conv')
qed (use assms(1) in \<open>simp_all add: in_attr_def\<close>)

lemma add_to_sts_spec_typed:
  "add_to_sts_spec mpo X (PObj ''V1StatefulSet'' al) cn cm
     = in_attr ''spec'' (in_attr ''template'' (in_attr ''spec''
         (\<lambda>pod. and_then (typed_add_containers X cn pod) (typed_add_volumes X cm))))
         (PObj ''V1StatefulSet'' al)"
proof -
  let ?sts = "PObj ''V1StatefulSet'' al"
  let ?c = "in_attr ''spec'' (in_attr ''template'' (in_attr ''spec'' (typed_add_containers X cn)))"
  let ?v = "in_attr ''spec'' (in_attr ''template'' (in_attr ''spec'' (typed_add_volumes X cm)))"
  have "add_to_sts_spec mpo X ?sts cn cm
          = and_then (?c ?sts) (\<lambda>s. add_volumes_to_sts_spec mpo X s cm)"
    by (simp add: add_to_sts_spec_def add_containers_to_sts_spec_def)
  also have "\<dots> = and_then (?c ?sts) ?v"
  proof (rule and_then_cong_Inr)
    fix s assume "?c ?sts = Inr s"
    then obtain al' where "s = PObj ''V1StatefulSet'' al'" by (auto dest: in_attr_class)
    then show "add_volumes_to_sts_spec mpo X s cm = ?v s"
      by (simp add: add_volumes_to_sts_spec_def)
  qed
  also have "\<dots> = in_attr ''spec'' (in_attr ''template'' (in_attr ''spec''
         (\<lambda>pod. and_then (typed_add_containers X cn pod) (typed_add_volumes X cm)))) ?sts"
    by (simp add: in_attr_fuse)
  finally show ?thesis .
qed

lemma two_calls_typed:
  "and_then (add_to_sts_spec mpo X (PObj ''V1StatefulSet'' al) cn cmX)
            (\<lambda>s. add_to_sts_spec mpo Y s cn cmY)
     = in_attr ''spec'' (in_attr ''template'' (in_attr ''spec''
         (\<lambda>pod. and_then (and_then (and_then (typed_add_containers X cn pod) (typed_add_volumes X cmX))
                            (typed_add_containers Y cn)) (typed_add_volumes Y cmY))))
         (PObj ''V1StatefulSet'' al)"
proof -
  let ?sts = "PObj ''V1StatefulSet'' al"
  let ?x = "in_attr ''spec'' (in_attr ''template'' (in_attr ''spec''
         (\<lambda>pod. and_then (typed_add_containers X cn pod) (typed_add_volumes X cmX))))"
  let ?y = "in_attr ''spec'' (in_attr ''template'' (in_attr ''spec''
         (\<lambda>pod. and_then (typed_add_containers Y cn pod) (typed_add_volumes Y cmY))))"
  have "and_then (add_to_sts_spec mpo X ?sts cn cmX) (\<lambda>s. add_to_sts_spec mpo Y s cn cmY)
          = and_then (?x ?sts) (\<lambda>s. add_to_sts_spec mpo Y s cn cmY)"
    by (simp only: add_to_sts_spec_typed)
  also have "\<dots> = and_then (?x ?sts) ?y"
  proof (rule and_then_cong_Inr)
    fix s assume "?x ?sts = Inr s"
    then obtain al' where "s = PObj ''V1StatefulSet'' al'" by (auto dest: in_attr_class)
    then show "add_to_sts_spec mpo Y s cn cmY = ?y s"
      by (simp only: add_to_sts_spec_typed)
  qed
  also have "\<dots> = in_attr ''spec'' (in_attr ''template'' (in_attr ''spec''
         (\<lambda>pod. and_then (and_then (and_then (typed_add_containers X cn pod) (typed_add_volumes X cmX))
                            (typed_add_containers Y cn)) (typed_add_volumes Y cmY)))) ?sts"
    by (simp add: in_attr_fuse and_then_assoc)
  finally show ?thesis .
qed

section \<open>A template with the named container\<close>

text \<open>
  Where the typed template holds a container of the given name (after containers \<open>pre\<close>
  of other names) and every true entry of the mounts and the volumes has a name, the
  call returns normally: the old entries of the volume name and the false entries are
  gone, and the new mount and the new volume stand last. So there is exactly one volume
  and one mount of that name, and a second call changes nothing.
\<close>

lemma add_to_sts_spec_found:
  assumes "skips cn pre" and "readable ms" and "readable vs"
  shows "add_to_sts_spec merge_patch_object X
           (V1StatefulSet (PList (pre @ V1Container cn (PList ms) # post)) (PList vs)) cn cm
         = Inr (V1StatefulSet
                  (PList (pre @ V1Container cn
                            (PList (filter (keeps (volume_mount_name X)) ms @ [mount_entry X]))
                          # post))
                  (PList (filter (keeps (volume_mount_name X)) vs @ [volume_entry X cm])))"
proof -
  let ?ca = "[(''name'', PStr cn), (''volume_mounts'', PList ms)]"
  let ?al = "[(''containers'', PList (pre @ PObj ''V1Container'' ?ca # post)),
              (''volumes'', PList vs)]"
  have r: "pod_ready cn ?al pre ''V1Container'' ?ca post ms vs"
    using assms by (simp add: pod_ready_def)
  show ?thesis
    unfolding V1StatefulSet_def V1Container_def add_to_sts_spec_typed
    by (simp add: in_attr_obj step_ready [OF r] pod_after_def)
qed

lemma filter_named_kept:
  "filter (\<lambda>v. get_object_name v = Inr (PStr n)) (filter (keeps n) xs) = []"
  by (simp add: keeps_def)

lemma add_to_sts_spec_found_one_volume_one_mount:
  "filter (\<lambda>v. get_object_name v = Inr (PStr (volume_mount_name X)))
     (filter (keeps (volume_mount_name X)) vs @ [volume_entry X cm]) = [volume_entry X cm]"
  "filter (\<lambda>v. get_object_name v = Inr (PStr (volume_mount_name X)))
     (filter (keeps (volume_mount_name X)) ms @ [mount_entry X]) = [mount_entry X]"
  by (simp_all add: keeps_def)

lemma add_to_sts_spec_found_twice:
  assumes "skips cn pre" and "readable ms" and "readable vs"
  shows "and_then (add_to_sts_spec merge_patch_object X
                     (V1StatefulSet (PList (pre @ V1Container cn (PList ms) # post)) (PList vs))
                     cn cm)
           (\<lambda>sts'. add_to_sts_spec merge_patch_object X sts' cn cm)
         = add_to_sts_spec merge_patch_object X
             (V1StatefulSet (PList (pre @ V1Container cn (PList ms) # post)) (PList vs)) cn cm"
proof -
  have m: "readable (filter (keeps (volume_mount_name X)) ms @ [mount_entry X])"
    and v: "readable (filter (keeps (volume_mount_name X)) vs @ [volume_entry X cm])"
    using assms by simp_all
  show ?thesis
    by (simp add: add_to_sts_spec_found [OF assms] add_to_sts_spec_found [OF assms(1) m v])
qed

section \<open>A template without the named container\<close>

text \<open>
  C1 at a typed template whose containers are the one container \<^verbatim>\<open>mysql\<close>, for the
  container name \<^verbatim>\<open>logcollector\<close>: the call returns normally, the volume is there, but
  line 104 has extended the container list by the key of the patch, the string
  \<^verbatim>\<open>"containers"\<close>. No container named \<^verbatim>\<open>logcollector\<close> holds the mount: the name of the
  first entry is \<^verbatim>\<open>mysql\<close>, and the second has no name to read.
\<close>

theorem add_to_sts_spec_container_missing:
  "add_to_sts_spec merge_patch_object GeneralLogSpec_init
     (V1StatefulSet (PList [V1Container ''mysql'' (PList [])]) (PList []))
     ''logcollector'' ''cm''
   = Inr (V1StatefulSet (PList [V1Container ''mysql'' (PList []), PStr ''containers''])
            (PList [volume_entry GeneralLogSpec_init ''cm'']))
   \<and> get_object_name (V1Container ''mysql'' (PList [])) = Inr (PStr ''mysql'')
   \<and> get_object_name (PStr ''containers'') = Inl AttributeError"
  by (simp add: add_to_sts_spec_def add_containers_to_sts_spec_def add_volumes_to_sts_spec_def
        V1StatefulSet_def V1Container_def in_attr_def typed_add_containers_def
        typed_add_volumes_def get_object_name_def containers_patch_def)

text \<open>
  C2 at the same template: the second application reaches the string that the first one
  left in the container list, cannot read its name, and raises \<^verbatim>\<open>AttributeError\<close>.
\<close>

theorem add_to_sts_spec_twice_container_missing:
  "and_then (add_to_sts_spec merge_patch_object ErrorLogSpec_init
               (V1StatefulSet (PList [V1Container ''mysql'' (PList [])]) (PList []))
               ''logcollector'' ''cm'')
     (\<lambda>sts'. add_to_sts_spec merge_patch_object ErrorLogSpec_init sts' ''logcollector'' ''cm'')
   = Inl AttributeError"
  by (simp add: add_to_sts_spec_def add_containers_to_sts_spec_def add_volumes_to_sts_spec_def
        V1StatefulSet_def V1Container_def in_attr_def typed_add_containers_def
        typed_add_volumes_def get_object_name_def containers_patch_def)

text \<open>
  C3 at a typed template with no container at all: what the call appends to the
  container list is the string \<^verbatim>\<open>"containers"\<close>, not the container entry of the patch
  (the dict with the name and the one mount).
\<close>

theorem add_to_sts_spec_no_container_appended:
  "add_to_sts_spec merge_patch_object SlowQueryLogSpec_init
     (V1StatefulSet (PList []) (PList [])) ''logcollector'' ''cm''
   = Inr (V1StatefulSet (PList [PStr ''containers''])
            (PList [volume_entry SlowQueryLogSpec_init ''cm'']))
   \<and> PStr ''containers''
       \<noteq> PDict [(''name'', PStr ''logcollector''),
                 (''volumeMounts'', PList [mount_entry SlowQueryLogSpec_init])]"
  by (simp add: add_to_sts_spec_def add_containers_to_sts_spec_def add_volumes_to_sts_spec_def
        V1StatefulSet_def V1Container_def in_attr_def typed_add_containers_def
        typed_add_volumes_def get_object_name_def containers_patch_def)

section \<open>Two kinds, in either order\<close>

text \<open>
  C4, as stated, fails: each call appends its volume and its mount at the end of the
  lists, so the two orders leave the entries in different orders. On a typed template
  with the one container \<^verbatim>\<open>logcollector\<close>, the general log then the error log, and the
  error log then the general log, give two different templates.
\<close>

theorem add_to_sts_spec_order_differs:
  "and_then (add_to_sts_spec (\<lambda>base patch. Inr base) GeneralLogSpec_init
               (V1StatefulSet (PList [V1Container ''logcollector'' (PList [])]) (PList []))
               ''logcollector'' ''cm'')
     (\<lambda>sts'. add_to_sts_spec (\<lambda>base patch. Inr base) ErrorLogSpec_init sts' ''logcollector'' ''cm'')
   \<noteq> and_then (add_to_sts_spec (\<lambda>base patch. Inr base) ErrorLogSpec_init
               (V1StatefulSet (PList [V1Container ''logcollector'' (PList [])]) (PList []))
               ''logcollector'' ''cm'')
     (\<lambda>sts'. add_to_sts_spec (\<lambda>base patch. Inr base) GeneralLogSpec_init sts' ''logcollector'' ''cm'')"
  by (simp add: add_to_sts_spec_def add_containers_to_sts_spec_def add_volumes_to_sts_spec_def
        V1StatefulSet_def V1Container_def in_attr_def typed_add_containers_def
        typed_add_volumes_def get_object_name_def containers_patch_def patch_container_def
        volume_entry_def mount_entry_def GeneralLogSpec_init_def ErrorLogSpec_init_def)

text \<open>
  C4, amended. For every typed template (a \<^verbatim>\<open>V1StatefulSet\<close>) and two log specifications
  with distinct volume-mount names: if applying \<^verbatim>\<open>add_to_sts_spec\<close> for \<open>A\<close> and then for
  \<open>B\<close> returns normally (which needs a container of the given name in the template),
  then so does applying it for \<open>B\<close> and then for \<open>A\<close>, and the two final templates
  are the same but for the order of the two appended entries: the second is the first
  with the last two volumes exchanged and the last two mounts of the container exchanged.
\<close>

theorem add_to_sts_spec_two_kinds:
  assumes ne: "volume_mount_name A \<noteq> volume_mount_name B"
      and AB: "and_then (add_to_sts_spec merge_patch_object A (PObj ''V1StatefulSet'' attrs)
                           container_name cmA)
                 (\<lambda>sts'. add_to_sts_spec merge_patch_object B sts' container_name cmB) = Inr sts12"
  shows "and_then (add_to_sts_spec merge_patch_object B (PObj ''V1StatefulSet'' attrs)
                     container_name cmB)
           (\<lambda>sts'. add_to_sts_spec merge_patch_object A sts' container_name cmA)
         = Inr (swap_appended container_name sts12)"
proof -
  note AB' = AB [unfolded two_calls_typed]
  have pod: "\<And>v v'. and_then (and_then (and_then (typed_add_containers A container_name v)
                 (typed_add_volumes A cmA)) (typed_add_containers B container_name))
                 (typed_add_volumes B cmB) = Inr v'
      \<Longrightarrow> and_then (and_then (and_then (typed_add_containers B container_name v)
                 (typed_add_volumes B cmB)) (typed_add_containers A container_name))
                 (typed_add_volumes A cmA) = Inr (swap_in_pod container_name v')"
    by (rule pod_two_kinds [OF ne])
  show ?thesis
    unfolding two_calls_typed swap_appended_def
    by (rule in_attr_lift [OF AB'], rule in_attr_lift, assumption, rule in_attr_lift, assumption,
        rule pod)
qed

text \<open>
  The general log and the error log on a template with the containers \<^verbatim>\<open>mysql\<close> and
  \<^verbatim>\<open>logcollector\<close>, the latter holding a \<^verbatim>\<open>None\<close> and an old mount of the general log, and
  one volume of another name.
\<close>

theorem add_to_sts_spec_two_kinds_witness:
  "volume_mount_name GeneralLogSpec_init \<noteq> volume_mount_name ErrorLogSpec_init
   \<and> and_then (add_to_sts_spec (\<lambda>base patch. Inr base) GeneralLogSpec_init
         (V1StatefulSet
            (PList [V1Container ''mysql'' (PList []),
                    V1Container ''logcollector''
                      (PList [PNone,
                              PObj ''V1VolumeMount'' [(''name'', PStr ''general-log-config''),
                                                     (''mount_path'', PStr ''/old'')]])])
            (PList [PObj ''V1Volume'' [(''name'', PStr ''datadir'')]]))
         ''logcollector'' ''cm'')
       (\<lambda>sts'. add_to_sts_spec (\<lambda>base patch. Inr base) ErrorLogSpec_init sts' ''logcollector'' ''cm'')
     = Inr (V1StatefulSet
              (PList [V1Container ''mysql'' (PList []),
                      V1Container ''logcollector''
                        (PList [mount_entry GeneralLogSpec_init, mount_entry ErrorLogSpec_init])])
              (PList [PObj ''V1Volume'' [(''name'', PStr ''datadir'')],
                      volume_entry GeneralLogSpec_init ''cm'',
                      volume_entry ErrorLogSpec_init ''cm'']))
   \<and> and_then (add_to_sts_spec (\<lambda>base patch. Inr base) ErrorLogSpec_init
         (V1StatefulSet
            (PList [V1Container ''mysql'' (PList []),
                    V1Container ''logcollector''
                      (PList [PNone,
                              PObj ''V1VolumeMount'' [(''name'', PStr ''general-log-config''),
                                                     (''mount_path'', PStr ''/old'')]])])
            (PList [PObj ''V1Volume'' [(''name'', PStr ''datadir'')]]))
         ''logcollector'' ''cm'')
       (\<lambda>sts'. add_to_sts_spec (\<lambda>base patch. Inr base) GeneralLogSpec_init sts' ''logcollector'' ''cm'')
     = Inr (V1StatefulSet
              (PList [V1Container ''mysql'' (PList []),
                      V1Container ''logcollector''
                        (PList [mount_entry ErrorLogSpec_init, mount_entry GeneralLogSpec_init])])
              (PList [PObj ''V1Volume'' [(''name'', PStr ''datadir'')],
                      volume_entry ErrorLogSpec_init ''cm'',
                      volume_entry GeneralLogSpec_init ''cm'']))"
proof -
  let ?m = "\<lambda>(base::pyval) (patch::pyval). (Inr base :: error + pyval)"
  let ?pod = "[(''containers'',
                PList [V1Container ''mysql'' (PList []),
                       V1Container ''logcollector''
                         (PList [PNone,
                                 PObj ''V1VolumeMount'' [(''name'', PStr ''general-log-config''),
                                                        (''mount_path'', PStr ''/old'')]])]),
               (''volumes'', PList [PObj ''V1Volume'' [(''name'', PStr ''datadir'')]])]"
  let ?attrs = "[(''spec'', PObj ''V1StatefulSetSpec''
                   [(''template'', PObj ''V1PodTemplateSpec''
                       [(''spec'', PObj ''V1PodSpec'' ?pod)])])]"
  let ?r = "V1StatefulSet
              (PList [V1Container ''mysql'' (PList []),
                      V1Container ''logcollector''
                        (PList [mount_entry GeneralLogSpec_init, mount_entry ErrorLogSpec_init])])
              (PList [PObj ''V1Volume'' [(''name'', PStr ''datadir'')],
                      volume_entry GeneralLogSpec_init ''cm'',
                      volume_entry ErrorLogSpec_init ''cm''])"
  have ne: "volume_mount_name GeneralLogSpec_init \<noteq> volume_mount_name ErrorLogSpec_init"
    by (simp add: GeneralLogSpec_init_def ErrorLogSpec_init_def)
  have ab: "and_then (add_to_sts_spec ?m GeneralLogSpec_init (PObj ''V1StatefulSet'' ?attrs)
                        ''logcollector'' ''cm'')
              (\<lambda>sts'. add_to_sts_spec ?m ErrorLogSpec_init sts' ''logcollector'' ''cm'')
            = Inr ?r"
    by (simp add: add_to_sts_spec_def add_containers_to_sts_spec_def add_volumes_to_sts_spec_def
          V1StatefulSet_def V1Container_def in_attr_def typed_add_containers_def
          typed_add_volumes_def get_object_name_def containers_patch_def patch_container_def
          volume_entry_def mount_entry_def GeneralLogSpec_init_def ErrorLogSpec_init_def)
  have sw: "swap_appended ''logcollector'' ?r
            = V1StatefulSet
              (PList [V1Container ''mysql'' (PList []),
                      V1Container ''logcollector''
                        (PList [mount_entry ErrorLogSpec_init, mount_entry GeneralLogSpec_init])])
              (PList [PObj ''V1Volume'' [(''name'', PStr ''datadir'')],
                      volume_entry ErrorLogSpec_init ''cm'',
                      volume_entry GeneralLogSpec_init ''cm''])"
    by (simp add: swap_appended_def swap_in_pod_def upd_attr_def upd_list_def
          V1StatefulSet_def V1Container_def get_object_name_def)
  have ba: "and_then (add_to_sts_spec ?m ErrorLogSpec_init (PObj ''V1StatefulSet'' ?attrs)
                        ''logcollector'' ''cm'')
              (\<lambda>sts'. add_to_sts_spec ?m GeneralLogSpec_init sts' ''logcollector'' ''cm'')
            = Inr (swap_appended ''logcollector'' ?r)"
    by (rule add_to_sts_spec_two_kinds [OF ne ab])
  show ?thesis
    using ne ab ba [unfolded sw]
    by (simp add: V1StatefulSet_def)
qed

end
